theory Spec2Isabelle
  imports Main "HOL-Library.Sublist"
begin

section \<open>Data model\<close>

text \<open>
  The session handle of \<^verbatim>\<open>panos.go\<close> (struct \<^verbatim>\<open>PaloAlto\<close>). Strings are byte lists, as Go
  strings are.
\<close>

record PaloAlto =
  Host :: string
  Key :: string
  URI :: string
  Platform :: string
  Model :: string
  Serial :: string
  SoftwareVersion :: string
  DeviceType :: string
  Panorama :: bool

text \<open>Struct \<^verbatim>\<open>Address\<close> (one \<^verbatim>\<open>result>address>entry\<close> element).\<close>

record Address =
  addr_Name :: string
  addr_IPAddress :: string
  addr_IPRange :: string
  addr_FQDN :: string
  addr_Description :: string

text \<open>Struct \<^verbatim>\<open>xmlAddressGroup\<close> (as parsed) and struct \<^verbatim>\<open>AddressGroup\<close> (as returned).\<close>

record xmlAddressGroup =
  xag_Name :: string
  xag_Members :: "string list"
  xag_DynamicFilter :: string
  xag_Description :: string

record AddressGroup =
  ag_Name :: string
  ag_Type :: string
  ag_Members :: "string list"
  ag_DynamicFilter :: string
  ag_Description :: string

text \<open>Struct \<^verbatim>\<open>xmlTag\<close> (as parsed) and struct \<^verbatim>\<open>Tag\<close> (as returned).\<close>

record xmlTag =
  xtag_Name :: string
  xtag_Color :: string
  xtag_Comments :: string

record Tag =
  tag_Name :: string
  tag_Color :: string
  tag_Comments :: string

text \<open>
  Struct \<^verbatim>\<open>DeviceGroup\<close>; the struct \<^verbatim>\<open>Serial\<close> has the serial number as its only field and is
  modelled by that string.
\<close>

record DeviceGroup =
  dg_Name :: string
  dg_Devices :: "string list"

text \<open>
  Modelled from the spec: the structs \<^verbatim>\<open>Service\<close> and \<^verbatim>\<open>ServiceGroup\<close> are declared in a source
  file that is not part of the sources at hand. \<^verbatim>\<open>ApplyTag\<close> and \<^verbatim>\<open>RemoveTag\<close> read only the
  \<^verbatim>\<open>Name\<close> field of their entries, so that is the only field modelled.
\<close>

record Service =
  svc_Name :: string

record ServiceGroup =
  sg_Name :: string

text \<open>
  The XML document of a response. The source unmarshals the same kind of document into
  several structs (\<^verbatim>\<open>authKey\<close>, \<^verbatim>\<open>systemInfo\<close>, \<^verbatim>\<open>panoramaStatus\<close>, \<^verbatim>\<open>requestError\<close>,
  \<^verbatim>\<open>AddressObjects\<close>, ...), each of which picks the attributes \<^verbatim>\<open>status\<close> and \<^verbatim>\<open>code\<close> of the
  root element and some paths below \<^verbatim>\<open>result\<close>. A document is modelled by the values found
  at all of these paths; a struct of the source is the projection to its own fields. The
  attributes \<^verbatim>\<open>status\<close> and \<^verbatim>\<open>code\<close> and the element \<^verbatim>\<open>result>msg\<close> may be absent from a
  document (\<open>None\<close>); for the other paths an absent element and an empty one are the same
  to the code, which reads them into fresh variables only.
\<close>

record document =
  xml_status :: "string option"
  xml_code :: "string option"
  xml_key :: string
  xml_msg :: "string option"
  xml_platform_family :: string
  xml_model :: string
  xml_serial :: string
  xml_sw_version :: string
  xml_result :: string
  xml_address :: "Address list"
  xml_address_group :: "xmlAddressGroup list"
  xml_service :: "Service list"
  xml_service_group :: "ServiceGroup list"
  xml_tag :: "xmlTag list"
  xml_devices :: "string list"
  xml_device_group :: "DeviceGroup list"

text \<open>
  Go's \<^verbatim>\<open>error\<close> values. The source makes them in four ways, and the constructor records which:
  the transport's \<^verbatim>\<open>resp.Error\<close>, the error of \<^verbatim>\<open>xml.Unmarshal\<close>, \<^verbatim>\<open>errors.New\<close> for a violated
  precondition of the caller, and \<^verbatim>\<open>fmt.Errorf("error code %s: %s", ...)\<close> for a response whose
  status is not \<^verbatim>\<open>success\<close>. The argument is the text of the error.
\<close>

datatype error =
  TransportError string
| ParseError string
| ConfigError string
| OperationError string

text \<open>
  A response body either makes \<^verbatim>\<open>xml.Unmarshal\<close> fail or is a document. The response of the
  HTTP library has the two fields the source reads, \<^verbatim>\<open>Error\<close> and \<^verbatim>\<open>Body\<close>.
\<close>

datatype body = Malformed string | Doc document

record response =
  Error :: "string option"
  Body :: body

type_synonym params = "(string \<times> string) list"

text \<open>
  A request as handed to \<^verbatim>\<open>r.Send(method, uri, nil, headers, query)\<close>; the body argument is
  \<^verbatim>\<open>nil\<close> at every call site. The maps \<^verbatim>\<open>headers\<close> and \<^verbatim>\<open>query\<close> are association lists in the
  order of the source's map literal; \<^verbatim>\<open>nil\<close> is the empty list.
\<close>

record request =
  Method :: string
  Url :: string
  Headers :: params
  Query :: params

text \<open>
  The world outside the library: the device answers a request depending on all requests
  sent so far (the last element of the list is the request being answered), and \<open>sent\<close>
  is the log of the requests sent.
\<close>

record world =
  device :: "request list \<Rightarrow> response"
  sent :: "request list"

definition Send :: "string \<Rightarrow> string \<Rightarrow> params \<Rightarrow> params \<Rightarrow> world \<Rightarrow> response \<times> world" where
  "Send method uri hdrs query w =
     (let rq = \<lparr>Method = method, Url = uri, Headers = hdrs, Query = query\<rparr>;
          log = sent w @ [rq]
      in (device w log, w\<lparr>sent := log\<rparr>))"

definition Unmarshal :: "body \<Rightarrow> error + document" where
  "Unmarshal b = (case b of Malformed e \<Rightarrow> Inl (ParseError e) | Doc d \<Rightarrow> Inr d)"

text \<open>
  \<^verbatim>\<open>xml.Unmarshal\<close> assigns a field of the target only when the document has the field's
  attribute or element; otherwise the field keeps the value it had.
\<close>

definition attr :: "string option \<Rightarrow> string \<Rightarrow> string" where
  "attr a old = (case a of None \<Rightarrow> old | Some v \<Rightarrow> v)"

text \<open>
  The fields \<^verbatim>\<open>Status\<close> and \<^verbatim>\<open>Code\<close> of a struct that was declared just before the document
  is unmarshalled into it (\<^verbatim>\<open>authKey\<close>, \<^verbatim>\<open>systemInfo\<close>, \<^verbatim>\<open>AddressObjects\<close>, ...): the zero value
  \<^verbatim>\<open>""\<close> for an absent attribute.
\<close>

definition statusOf :: "document \<Rightarrow> string" where
  "statusOf d = attr (xml_status d) []"

definition codeOf :: "document \<Rightarrow> string" where
  "codeOf d = attr (xml_code d) []"

text \<open>
  Struct \<^verbatim>\<open>requestError\<close>, its zero value (\<^verbatim>\<open>var reqError requestError\<close>) and the value of the
  variable after \<^verbatim>\<open>xml.Unmarshal(resp.Body, &reqError)\<close> has read the document \<open>d\<close> into it.
\<close>

record requestError =
  Status :: string
  Code :: string
  Message :: string

definition zeroError :: requestError where
  "zeroError = \<lparr>Status = [], Code = [], Message = []\<rparr>"

definition unmarshalled :: "document \<Rightarrow> requestError \<Rightarrow> requestError" where
  "unmarshalled d reqError =
     \<lparr>Status = attr (xml_status d) (Status reqError),
      Code = attr (xml_code d) (Code reqError),
      Message = attr (xml_msg d) (Message reqError)\<rparr>"

section \<open>Global tables\<close>

text \<open>Indexing a Go map of strings: the zero value \<^verbatim>\<open>""\<close> for a key that is absent.\<close>

definition index :: "params \<Rightarrow> string \<Rightarrow> string" where
  "index m k = (case map_of m k of None \<Rightarrow> [] | Some v \<Rightarrow> v)"

definition headers :: params where
  "headers = [(''Content-Type'', ''application/xml'')]"

definition tagColors :: params where
  "tagColors =
    [(''Red'', ''color1''),
     (''Green'', ''color2''),
     (''Blue'', ''color3''),
     (''Yellow'', ''color4''),
     (''Copper'', ''color5''),
     (''Orange'', ''color6''),
     (''Purple'', ''color7''),
     (''Gray'', ''color8''),
     (''Light Green'', ''color9''),
     (''Cyan'', ''color10''),
     (''Light Gray'', ''color11''),
     (''Blue Gray'', ''color12''),
     (''Lime'', ''color13''),
     (''Black'', ''color14''),
     (''Gold'', ''color15''),
     (''Brown'', ''color16'')]"

text \<open>
  The typographic quotes of entry \<^verbatim>\<open>"7"\<close> are the UTF-8 bytes of U+2019 and U+2018.
\<close>

definition rsquo :: string where
  "rsquo = [CHR 0xE2, CHR 0x80, CHR 0x99]"

definition lsquo :: string where
  "lsquo = [CHR 0xE2, CHR 0x80, CHR 0x98]"

definition internalError :: string where
  "internalError = ''Internal error - Check with technical support when seeing these errors''"

definition errorCodes :: params where
  "errorCodes =
    [(''400'', ''Bad request - Returned when a required parameter is missing, an illegal parameter value is used''),
     (''403'', ''Forbidden - Returned for authentication or authorization errors including invalid key, insufficient admin access rights''),
     (''1'', ''Unknown command - The specific config or operational command is not recognized''),
     (''2'', internalError),
     (''3'', internalError),
     (''4'', internalError),
     (''5'', internalError),
     (''6'', ''Bad Xpath - The xpath specified in one or more attributes of the command is invalid. Check the API browser for proper xpath values''),
     (''7'', ''Object not present - Object specified by the xpath is not present. For example, entry[@name=''
              @ rsquo @ ''value'' @ rsquo @ ''] where no object with name '' @ lsquo @ ''value'' @ rsquo @ '' is present''),
     (''8'', ''Object not unique - For commands that operate on a single object, the specified object is not unique''),
     (''9'', internalError),
     (''10'', ''Reference count not zero - Object cannot be deleted as there are other objects that refer to it. For example, address object still in use in policy''),
     (''11'', internalError),
     (''12'', ''Invalid object - Xpath or element values provided are not complete''),
     (''13'', ''Operation failed - A descriptive error message is returned in the response''),
     (''14'', ''Operation not possible - Operation is not possible. For example, moving a rule up one position when it is already at the top''),
     (''15'', ''Operation denied - For example, Admin not allowed to delete own account, Running a command that is not allowed on a passive device''),
     (''16'', ''Unauthorized - The API role does not have access rights to run this query''),
     (''17'', ''Invalid command - Invalid command or parameters''),
     (''18'', ''Malformed command - The XML is malformed''),
     (''19'', ''Success - Command completed successfully''),
     (''20'', ''Success - Command completed successfully''),
     (''21'', internalError),
     (''22'', ''Session timed out - The session for this query timed out'')]"

section \<open>The shared request tail\<close>

text \<open>\<^verbatim>\<open>fmt.Errorf("error code %s: %s", code, errorCodes[code])\<close>, as every operation calls it.\<close>

definition codeError :: "string \<Rightarrow> error" where
  "codeError code = OperationError (''error code '' @ code @ '': '' @ index errorCodes code)"

text \<open>
  Every mutating operation ends in the same lines:
  \<^verbatim>\<open>
  if resp.Error != nil { return resp.Error }
  if err := xml.Unmarshal(resp.Body, &reqError); err != nil { return err }
  if reqError.Status != "success" {
      return fmt.Errorf("error code %s: %s", reqError.Code, errorCodes[reqError.Code])
  }
  return nil
  \<close>
  \<open>checkResponseInto\<close> is these lines: it takes the value that the variable \<^verbatim>\<open>reqError\<close> has
  before them and returns the error (\<open>None\<close> is \<^verbatim>\<open>nil\<close>) with the value of the variable after
  them. \<open>verdict\<close> is the last \<^verbatim>\<open>if\<close>.
\<close>

definition verdict :: "requestError \<Rightarrow> error option" where
  "verdict reqError =
     (if Status reqError \<noteq> ''success'' then Some (codeError (Code reqError)) else None)"

definition checkResponseInto :: "requestError \<Rightarrow> response \<Rightarrow> error option \<times> requestError" where
  "checkResponseInto reqError resp =
     (case Error resp of
        Some e \<Rightarrow> (Some (TransportError e), reqError)
      | None \<Rightarrow>
         (case Body resp of
            Malformed e \<Rightarrow> (Some (ParseError e), reqError)
          | Doc d \<Rightarrow> (verdict (unmarshalled d reqError), unmarshalled d reqError)))"

text \<open>
  The tail where \<^verbatim>\<open>reqError\<close> has been declared and not yet used, as in every operation
  but the second request of \<^verbatim>\<open>AddDevice\<close>.
\<close>

definition checkResponse :: "response \<Rightarrow> error option" where
  "checkResponse resp = fst (checkResponseInto zeroError resp)"

text \<open>\<^verbatim>\<open>resp := r.Send(method, p.URI, nil, nil, query)\<close> followed by that tail.\<close>

definition sendAndCheck :: "string \<Rightarrow> string \<Rightarrow> params \<Rightarrow> world \<Rightarrow> error option \<times> world" where
  "sendAndCheck method uri query w =
     (let (resp, w') = Send method uri [] query w in (checkResponse resp, w'))"

text \<open>
  The same with a variable \<^verbatim>\<open>reqError\<close> that may have been used before; the value of the
  variable afterwards is returned as well.
\<close>

definition sendAndCheckInto ::
  "requestError \<Rightarrow> string \<Rightarrow> string \<Rightarrow> params \<Rightarrow> world
     \<Rightarrow> error option \<times> requestError \<times> world" where
  "sendAndCheckInto reqError method uri query w =
     (let (resp, w') = Send method uri [] query w;
          (r, reqError) = checkResponseInto reqError resp
      in (r, reqError, w'))"

text \<open>
  The listing operations do not read \<^verbatim>\<open>Error\<close>: they unmarshal the body of whatever came
  back and then test the status. \<open>proj\<close> is the struct's result field.
\<close>

definition sendAndParse ::
  "string \<Rightarrow> params \<Rightarrow> (document \<Rightarrow> 'a) \<Rightarrow> world \<Rightarrow> (error + 'a) \<times> world" where
  "sendAndParse uri query proj w =
     (let (data, w') = Send ''get'' uri headers query w in
      case Unmarshal (Body data) of
        Inl err \<Rightarrow> (Inl err, w')
      | Inr parsed \<Rightarrow>
          if statusOf parsed \<noteq> ''success'' then (Inl (codeError (codeOf parsed)), w')
          else (Inr (proj parsed), w'))"

section \<open>Locators\<close>

text \<open>The literal path prefixes that the format strings of the source repeat.\<close>

definition localhost :: string where
  "localhost = ''/config/devices/entry[@name='localhost.localdomain']''"

definition vsys1 :: string where
  "vsys1 = localhost @ ''/vsys/entry[@name='vsys1']''"

definition entry :: "string \<Rightarrow> string" where
  "entry name = ''/entry[@name='' @ [CHR 0x27] @ name @ [CHR 0x27] @ '']''"

definition deviceGroupPath :: "string \<Rightarrow> string" where
  "deviceGroupPath dg = localhost @ ''/device-group'' @ entry dg"

text \<open>The precondition errors.\<close>

definition needDeviceGroup :: error where
  "needDeviceGroup = ConfigError ''you must specify a device-group when connected to a Panorama device''"

definition needPanoramaForGroup :: error where
  "needPanoramaForGroup =
     ConfigError ''you must be connected to a Panorama device when specifying a device-group''"

section \<open>String helpers of the Go library\<close>

text \<open>\<^verbatim>\<open>strings.Split(s, ",")\<close>: the pieces between the separators, one piece more than separators.\<close>

fun splitOn :: "char \<Rightarrow> string \<Rightarrow> string \<Rightarrow> string list" where
  "splitOn sep cur [] = [cur]"
| "splitOn sep cur (c # cs) =
     (if c = sep then cur # splitOn sep [] cs else splitOn sep (cur @ [c]) cs)"

definition Split :: "string \<Rightarrow> char \<Rightarrow> string list" where
  "Split s sep = splitOn sep [] s"

text \<open>
  \<^verbatim>\<open>strings.TrimSpace\<close>: leading and trailing white space removed. White space is what
  \<^verbatim>\<open>unicode.IsSpace\<close> accepts, here in UTF-8.
\<close>

definition spaces :: "string list" where
  "spaces =
    [[CHR 0x09], [CHR 0x0A], [CHR 0x0B], [CHR 0x0C], [CHR 0x0D], [CHR 0x20],
     [CHR 0xC2, CHR 0x85], [CHR 0xC2, CHR 0xA0],
     [CHR 0xE1, CHR 0x9A, CHR 0x80],
     [CHR 0xE2, CHR 0x80, CHR 0x80], [CHR 0xE2, CHR 0x80, CHR 0x81],
     [CHR 0xE2, CHR 0x80, CHR 0x82], [CHR 0xE2, CHR 0x80, CHR 0x83],
     [CHR 0xE2, CHR 0x80, CHR 0x84], [CHR 0xE2, CHR 0x80, CHR 0x85],
     [CHR 0xE2, CHR 0x80, CHR 0x86], [CHR 0xE2, CHR 0x80, CHR 0x87],
     [CHR 0xE2, CHR 0x80, CHR 0x88], [CHR 0xE2, CHR 0x80, CHR 0x89],
     [CHR 0xE2, CHR 0x80, CHR 0x8A],
     [CHR 0xE2, CHR 0x80, CHR 0xA8], [CHR 0xE2, CHR 0x80, CHR 0xA9],
     [CHR 0xE2, CHR 0x80, CHR 0xAF], [CHR 0xE2, CHR 0x81, CHR 0x9F],
     [CHR 0xE3, CHR 0x80, CHR 0x80]]"

fun dropSpace :: "string list \<Rightarrow> string \<Rightarrow> string option" where
  "dropSpace [] s = None"
| "dropSpace (sp # sps) s =
     (if prefix sp s then Some (drop (length sp) s) else dropSpace sps s)"

function trimLeft :: "string \<Rightarrow> string" where
  "trimLeft s = (case dropSpace spaces s of None \<Rightarrow> s | Some s' \<Rightarrow>
                   if length s' < length s then trimLeft s' else s)"
  by pat_completeness auto
termination
  by (relation "measure length") auto

fun dropSpaceEnd :: "string list \<Rightarrow> string \<Rightarrow> string option" where
  "dropSpaceEnd [] s = None"
| "dropSpaceEnd (sp # sps) s =
     (if suffix sp s then Some (take (length s - length sp) s) else dropSpaceEnd sps s)"

function trimRight :: "string \<Rightarrow> string" where
  "trimRight s = (case dropSpaceEnd spaces s of None \<Rightarrow> s | Some s' \<Rightarrow>
                    if length s' < length s then trimRight s' else s)"
  by pat_completeness auto
termination
  by (relation "measure length") auto

definition TrimSpace :: "string \<Rightarrow> string" where
  "TrimSpace s = trimRight (trimLeft s)"

text \<open>The loop \<^verbatim>\<open>for _, m := range ms { xmlBody += fmt.Sprintf("<member>%s</member>", strings.TrimSpace(m)) }\<close>.\<close>

fun members :: "string list \<Rightarrow> string" where
  "members [] = []"
| "members (m # ms) = ''<member>'' @ TrimSpace m @ ''</member>'' @ members ms"

section \<open>Listing operations\<close>

text \<open>
  \<^verbatim>\<open>Addresses\<close>. The result \<^verbatim>\<open>(nil, err)\<close> is \<open>Inl err\<close>, the result \<^verbatim>\<open>(&addrs, nil)\<close> is
  \<open>Inr\<close> of the parsed entries. The variadic \<^verbatim>\<open>devicegroup\<close> is a list.
\<close>

definition Addresses :: "PaloAlto \<Rightarrow> string list \<Rightarrow> world \<Rightarrow> (error + Address list) \<times> world" where
  "Addresses p devicegroup w =
     (let xpath = ''/config/devices/entry//address'' in
      if DeviceType p \<noteq> ''panorama'' \<and> length devicegroup > 0 then (Inl needPanoramaForGroup, w)
      else
        let xpath = (if DeviceType p = ''panos'' \<and> Panorama p then ''/config/panorama//address'' else xpath);
            xpath = (if DeviceType p = ''panos'' \<and> \<not> Panorama p then vsys1 @ ''/address'' else xpath);
            xpath = (if DeviceType p = ''panorama'' \<and> length devicegroup > 0
                     then deviceGroupPath (hd devicegroup) @ ''/address'' else xpath);
            query = [(''type'', ''config''), (''action'', ''get''), (''xpath'', xpath), (''key'', Key p)]
        in sendAndParse (URI p) query xml_address w)"

text \<open>The loop of \<^verbatim>\<open>AddressGroups\<close> over the parsed groups.\<close>

definition convertGroup :: "xmlAddressGroup \<Rightarrow> AddressGroup" where
  "convertGroup g =
     \<lparr>ag_Name = xag_Name g,
      ag_Type = (if xag_DynamicFilter g \<noteq> [] then ''Dynamic'' else ''Static''),
      ag_Members = xag_Members g,
      ag_DynamicFilter = TrimSpace (xag_DynamicFilter g),
      ag_Description = xag_Description g\<rparr>"

definition AddressGroups ::
  "PaloAlto \<Rightarrow> string list \<Rightarrow> world \<Rightarrow> (error + AddressGroup list) \<times> world" where
  "AddressGroups p devicegroup w =
     (let xpath = ''/config/devices/entry//address-group'' in
      if DeviceType p \<noteq> ''panorama'' \<and> length devicegroup > 0 then (Inl needPanoramaForGroup, w)
      else
        let xpath = (if DeviceType p = ''panos'' \<and> Panorama p then ''/config/panorama//address-group'' else xpath);
            xpath = (if DeviceType p = ''panos'' \<and> \<not> Panorama p then vsys1 @ ''/address-group'' else xpath);
            xpath = (if DeviceType p = ''panorama'' \<and> length devicegroup > 0
                     then deviceGroupPath (hd devicegroup) @ ''/address-group'' else xpath);
            query = [(''type'', ''config''), (''action'', ''get''), (''xpath'', xpath), (''key'', Key p)]
        in sendAndParse (URI p) query (\<lambda>parsed. map convertGroup (xml_address_group parsed)) w)"

text \<open>
  Modelled from the spec: \<^verbatim>\<open>Services\<close> and \<^verbatim>\<open>ServiceGroups\<close> are called by \<^verbatim>\<open>ApplyTag\<close> and
  \<^verbatim>\<open>RemoveTag\<close> but are defined in a source file that is not at hand. The spec gives every
  listing operation one shape (resolve the locator, send one \<^verbatim>\<open>get\<close> request, unmarshal,
  return the records or a nil result with an error), so both follow \<^verbatim>\<open>Addresses\<close> with the
  category segment \<^verbatim>\<open>service\<close> and \<^verbatim>\<open>service-group\<close>.
\<close>

definition Services :: "PaloAlto \<Rightarrow> string list \<Rightarrow> world \<Rightarrow> (error + Service list) \<times> world" where
  "Services p devicegroup w =
     (let xpath = ''/config/devices/entry//service'' in
      if DeviceType p \<noteq> ''panorama'' \<and> length devicegroup > 0 then (Inl needPanoramaForGroup, w)
      else
        let xpath = (if DeviceType p = ''panos'' \<and> Panorama p then ''/config/panorama//service'' else xpath);
            xpath = (if DeviceType p = ''panos'' \<and> \<not> Panorama p then vsys1 @ ''/service'' else xpath);
            xpath = (if DeviceType p = ''panorama'' \<and> length devicegroup > 0
                     then deviceGroupPath (hd devicegroup) @ ''/service'' else xpath);
            query = [(''type'', ''config''), (''action'', ''get''), (''xpath'', xpath), (''key'', Key p)]
        in sendAndParse (URI p) query xml_service w)"

definition ServiceGroups ::
  "PaloAlto \<Rightarrow> string list \<Rightarrow> world \<Rightarrow> (error + ServiceGroup list) \<times> world" where
  "ServiceGroups p devicegroup w =
     (let xpath = ''/config/devices/entry//service-group'' in
      if DeviceType p \<noteq> ''panorama'' \<and> length devicegroup > 0 then (Inl needPanoramaForGroup, w)
      else
        let xpath = (if DeviceType p = ''panos'' \<and> Panorama p then ''/config/panorama//service-group'' else xpath);
            xpath = (if DeviceType p = ''panos'' \<and> \<not> Panorama p then vsys1 @ ''/service-group'' else xpath);
            xpath = (if DeviceType p = ''panorama'' \<and> length devicegroup > 0
                     then deviceGroupPath (hd devicegroup) @ ''/service-group'' else xpath);
            query = [(''type'', ''config''), (''action'', ''get''), (''xpath'', xpath), (''key'', Key p)]
        in sendAndParse (URI p) query xml_service_group w)"

text \<open>\<^verbatim>\<open>Devices\<close> and \<^verbatim>\<open>DeviceGroups\<close> (Panorama only).\<close>

definition Devices :: "PaloAlto \<Rightarrow> world \<Rightarrow> (error + string list) \<times> world" where
  "Devices p w =
     (let xpath = ''/config/mgt-config/devices'' in
      if DeviceType p \<noteq> ''panorama''
      then (Inl (ConfigError ''devices can only be listed from a Panorama device''), w)
      else
        let query = [(''type'', ''config''), (''action'', ''get''), (''xpath'', xpath), (''key'', Key p)]
        in sendAndParse (URI p) query xml_devices w)"

definition DeviceGroups :: "PaloAlto \<Rightarrow> world \<Rightarrow> (error + DeviceGroup list) \<times> world" where
  "DeviceGroups p w =
     (let xpath = ''/config/devices/entry//device-group'' in
      if DeviceType p \<noteq> ''panorama''
      then (Inl (ConfigError ''device-groups can only be listed from a Panorama device''), w)
      else
        let query = [(''type'', ''config''), (''action'', ''get''), (''xpath'', xpath), (''key'', Key p)]
        in sendAndParse (URI p) query xml_device_group w)"

section \<open>Address objects and address groups\<close>

text \<open>The \<^verbatim>\<open>switch addrtype\<close> of \<^verbatim>\<open>CreateAddress\<close> and \<^verbatim>\<open>CreateSharedAddress\<close>, then the description.\<close>

definition addressBody :: "string \<Rightarrow> string \<Rightarrow> string \<Rightarrow> string" where
  "addressBody addrtype address description =
     (let xmlBody =
        (if addrtype = ''ip'' then ''<ip-netmask>'' @ address @ ''</ip-netmask>''
         else if addrtype = ''range'' then ''<ip-range>'' @ address @ ''</ip-range>''
         else if addrtype = ''fqdn'' then ''<fqdn>'' @ address @ ''</fqdn>''
         else [])
      in if description \<noteq> [] then xmlBody @ ''<description>'' @ description @ ''</description>''
         else xmlBody)"

text \<open>
  The three \<^verbatim>\<open>if\<close> statements that pick the locator of a device-specific object, shared by
  the create and delete operations: \<^verbatim>\<open>xpath\<close> stays empty when no test applies.
\<close>

definition objectXpath :: "PaloAlto \<Rightarrow> string \<Rightarrow> string \<Rightarrow> string list \<Rightarrow> string" where
  "objectXpath p category name devicegroup =
     (let xpath = [];
          xpath = (if DeviceType p = ''panos'' then vsys1 @ category @ entry name else xpath);
          xpath = (if DeviceType p = ''panorama'' \<and> length devicegroup > 0
                   then deviceGroupPath (hd devicegroup) @ category @ entry name else xpath)
      in xpath)"

definition CreateAddress ::
  "PaloAlto \<Rightarrow> string \<Rightarrow> string \<Rightarrow> string \<Rightarrow> string \<Rightarrow> string list \<Rightarrow> world \<Rightarrow> error option \<times> world" where
  "CreateAddress p name addrtype address description devicegroup w =
     (let xmlBody = addressBody addrtype address description;
          xpath = objectXpath p ''/address'' name devicegroup
      in if DeviceType p = ''panorama'' \<and> length devicegroup \<le> 0 then (Some needDeviceGroup, w)
         else
           let query = [(''type'', ''config''), (''action'', ''set''), (''xpath'', xpath),
                        (''element'', xmlBody), (''key'', Key p)]
           in sendAndCheck ''post'' (URI p) query w)"

definition sharedOnly :: "string \<Rightarrow> error" where
  "sharedOnly verb =
     ConfigError (''you can only '' @ verb @ '' shared objects when connected to a Panorama device'')"

definition CreateSharedAddress ::
  "PaloAlto \<Rightarrow> string \<Rightarrow> string \<Rightarrow> string \<Rightarrow> string \<Rightarrow> world \<Rightarrow> error option \<times> world" where
  "CreateSharedAddress p name addrtype address description w =
     (let xmlBody = addressBody addrtype address description in
      if DeviceType p = ''panos'' then (Some (sharedOnly ''create''), w)
      else
        let xpath = (if DeviceType p = ''panorama'' then ''/config/shared/address'' @ entry name else []);
            query = [(''type'', ''config''), (''action'', ''set''), (''xpath'', xpath),
                     (''element'', xmlBody), (''key'', Key p)]
        in sendAndCheck ''post'' (URI p) query w)"

definition staticBody :: "string \<Rightarrow> string \<Rightarrow> string" where
  "staticBody mems description =
     (let xmlBody = ''<static>'' @ members (Split mems (CHR '','')) @ ''</static>''
      in if description \<noteq> [] then xmlBody @ ''<description>'' @ description @ ''</description>''
         else xmlBody)"

definition noMembers :: error where
  "noMembers = ConfigError ''you cannot create a static address group without any members''"

definition CreateStaticGroup ::
  "PaloAlto \<Rightarrow> string \<Rightarrow> string \<Rightarrow> string \<Rightarrow> string list \<Rightarrow> world \<Rightarrow> error option \<times> world" where
  "CreateStaticGroup p name mems description devicegroup w =
     (if mems = [] then (Some noMembers, w)
      else
        let xmlBody = staticBody mems description;
            xpath = objectXpath p ''/address-group'' name devicegroup
        in if DeviceType p = ''panorama'' \<and> length devicegroup \<le> 0 then (Some needDeviceGroup, w)
           else
             let query = [(''type'', ''config''), (''action'', ''set''), (''xpath'', xpath),
                          (''element'', xmlBody), (''key'', Key p)]
             in sendAndCheck ''post'' (URI p) query w)"

definition CreateSharedStaticGroup ::
  "PaloAlto \<Rightarrow> string \<Rightarrow> string \<Rightarrow> string \<Rightarrow> world \<Rightarrow> error option \<times> world" where
  "CreateSharedStaticGroup p name mems description w =
     (if mems = [] then (Some noMembers, w)
      else
        let xmlBody = staticBody mems description in
        if DeviceType p = ''panos'' then (Some (sharedOnly ''create''), w)
        else
          let xpath = (if DeviceType p = ''panorama'' then ''/config/shared/address-group'' @ entry name else []);
              query = [(''type'', ''config''), (''action'', ''set''), (''xpath'', xpath),
                       (''element'', xmlBody), (''key'', Key p)]
          in sendAndCheck ''post'' (URI p) query w)"

definition dynamicBody :: "string \<Rightarrow> string \<Rightarrow> string" where
  "dynamicBody criteria description =
     (let xmlBody = ''<dynamic><filter>'' @ criteria @ ''</filter></dynamic>''
      in if description \<noteq> [] then xmlBody @ ''<description>'' @ description @ ''</description>''
         else xmlBody)"

definition noFilter :: error where
  "noFilter = ConfigError ''you cannot create a dynamic address group without any filter''"

definition CreateDynamicGroup ::
  "PaloAlto \<Rightarrow> string \<Rightarrow> string \<Rightarrow> string \<Rightarrow> string list \<Rightarrow> world \<Rightarrow> error option \<times> world" where
  "CreateDynamicGroup p name criteria description devicegroup w =
     (if criteria = [] then (Some noFilter, w)
      else
        let xmlBody = dynamicBody criteria description;
            xpath = objectXpath p ''/address-group'' name devicegroup
        in if DeviceType p = ''panorama'' \<and> length devicegroup \<le> 0 then (Some needDeviceGroup, w)
           else
             let query = [(''type'', ''config''), (''action'', ''set''), (''xpath'', xpath),
                          (''element'', xmlBody), (''key'', Key p)]
             in sendAndCheck ''post'' (URI p) query w)"

definition CreateSharedDynamicGroup ::
  "PaloAlto \<Rightarrow> string \<Rightarrow> string \<Rightarrow> string \<Rightarrow> world \<Rightarrow> error option \<times> world" where
  "CreateSharedDynamicGroup p name criteria description w =
     (if criteria = [] then (Some noFilter, w)
      else
        let xmlBody = dynamicBody criteria description in
        if DeviceType p = ''panos'' then (Some (sharedOnly ''create''), w)
        else
          let xpath = (if DeviceType p = ''panorama'' then ''/config/shared/address-group'' @ entry name else []);
              query = [(''type'', ''config''), (''action'', ''set''), (''xpath'', xpath),
                       (''element'', xmlBody), (''key'', Key p)]
          in sendAndCheck ''post'' (URI p) query w)"

definition DeleteAddress :: "PaloAlto \<Rightarrow> string \<Rightarrow> string list \<Rightarrow> world \<Rightarrow> error option \<times> world" where
  "DeleteAddress p name devicegroup w =
     (let xpath = objectXpath p ''/address'' name devicegroup
      in if DeviceType p = ''panorama'' \<and> length devicegroup \<le> 0 then (Some needDeviceGroup, w)
         else
           let query = [(''type'', ''config''), (''action'', ''delete''), (''xpath'', xpath), (''key'', Key p)]
           in sendAndCheck ''get'' (URI p) query w)"

definition DeleteSharedAddress :: "PaloAlto \<Rightarrow> string \<Rightarrow> world \<Rightarrow> error option \<times> world" where
  "DeleteSharedAddress p name w =
     (if DeviceType p = ''panos'' then (Some (sharedOnly ''remove''), w)
      else
        let xpath = (if DeviceType p = ''panorama'' then ''/config/shared/address'' @ entry name else []);
            query = [(''type'', ''config''), (''action'', ''delete''), (''xpath'', xpath), (''key'', Key p)]
        in sendAndCheck ''get'' (URI p) query w)"

definition DeleteAddressGroup :: "PaloAlto \<Rightarrow> string \<Rightarrow> string list \<Rightarrow> world \<Rightarrow> error option \<times> world" where
  "DeleteAddressGroup p name devicegroup w =
     (let xpath = objectXpath p ''/address-group'' name devicegroup
      in if DeviceType p = ''panorama'' \<and> length devicegroup \<le> 0 then (Some needDeviceGroup, w)
         else
           let query = [(''type'', ''config''), (''action'', ''delete''), (''xpath'', xpath), (''key'', Key p)]
           in sendAndCheck ''get'' (URI p) query w)"

definition DeleteSharedAddressGroup :: "PaloAlto \<Rightarrow> string \<Rightarrow> world \<Rightarrow> error option \<times> world" where
  "DeleteSharedAddressGroup p name w =
     (if DeviceType p = ''panos'' then (Some (sharedOnly ''create''), w)
      else
        let xpath = (if DeviceType p = ''panorama'' then ''/config/shared/address-group'' @ entry name else []);
            query = [(''type'', ''config''), (''action'', ''delete''), (''xpath'', xpath), (''key'', Key p)]
        in sendAndCheck ''get'' (URI p) query w)"

section \<open>Devices and device groups\<close>

definition needPanorama :: "string \<Rightarrow> error" where
  "needPanorama what = ConfigError (''you must be connected to '' @ what)"

text \<open>The loop of \<^verbatim>\<open>CreateDeviceGroup\<close> over the serial numbers.\<close>

fun deviceEntries :: "string list \<Rightarrow> string" where
  "deviceEntries [] = []"
| "deviceEntries (s # ss) =
     ''<entry name='' @ [CHR 0x22] @ TrimSpace s @ [CHR 0x22] @ ''/>'' @ deviceEntries ss"

text \<open>\<^verbatim>\<open>CreateDeviceGroup\<close>; the slice \<^verbatim>\<open>devices\<close> may be \<^verbatim>\<open>nil\<close>, which is \<open>None\<close>.\<close>

definition CreateDeviceGroup ::
  "PaloAlto \<Rightarrow> string \<Rightarrow> string \<Rightarrow> string list option \<Rightarrow> world \<Rightarrow> error option \<times> world" where
  "CreateDeviceGroup p name description devices w =
     (if DeviceType p = ''panos'' \<or> DeviceType p \<noteq> ''panorama''
      then (Some (needPanorama ''a Panorama device when creating a device-group''), w)
      else
        let xpath = (if DeviceType p = ''panorama'' then localhost @ ''/device-group'' else []);
            xmlBody = (if DeviceType p = ''panorama''
                       then ''<entry name='' @ [CHR 0x22] @ name @ [CHR 0x22] @ ''>'' else []);
            xmlBody = (case devices of None \<Rightarrow> xmlBody
                       | Some ds \<Rightarrow> xmlBody @ ''<devices>'' @ deviceEntries ds @ ''</devices>'');
            xmlBody = (if description \<noteq> []
                       then xmlBody @ ''<description>'' @ description @ ''</description>'' else xmlBody);
            xmlBody = xmlBody @ ''</entry>'';
            query = [(''type'', ''config''), (''action'', ''set''), (''xpath'', xpath),
                     (''element'', xmlBody), (''key'', Key p)]
        in sendAndCheck ''post'' (URI p) query w)"

definition DeleteDeviceGroup :: "PaloAlto \<Rightarrow> string \<Rightarrow> world \<Rightarrow> error option \<times> world" where
  "DeleteDeviceGroup p name w =
     (if DeviceType p = ''panos'' \<or> DeviceType p \<noteq> ''panorama''
      then (Some (needPanorama ''a Panorama device when deleting a device-group''), w)
      else
        let xpath = (if DeviceType p = ''panorama'' then deviceGroupPath name else []);
            query = [(''type'', ''config''), (''action'', ''delete''), (''xpath'', xpath), (''key'', Key p)]
        in sendAndCheck ''post'' (URI p) query w)"

text \<open>
  \<^verbatim>\<open>AddDevice\<close>: two \<^verbatim>\<open>if\<close> blocks in sequence. With a device-group the second block sends
  two requests; the \<^verbatim>\<open>time.Sleep\<close> between them has no counterpart here. The function
  declares one variable \<^verbatim>\<open>reqError\<close> and unmarshals every response into it, so the second
  response of the second block is read into the variable as the first response left it.
\<close>

definition AddDevice :: "PaloAlto \<Rightarrow> string \<Rightarrow> string list \<Rightarrow> world \<Rightarrow> error option \<times> world" where
  "AddDevice p serial devicegroup w =
     (let reqError = zeroError in
      if DeviceType p = ''panos'' \<or> DeviceType p \<noteq> ''panorama''
      then (Some (needPanorama ''Panorama when adding devices''), w)
      else
        let deviceBody = ''<entry name='' @ [CHR 0x22] @ serial @ [CHR 0x22] @ ''/>'';
            deviceQuery = [(''type'', ''config''), (''action'', ''set''),
                           (''xpath'', ''/config/mgt-config/devices''),
                           (''element'', deviceBody), (''key'', Key p)];
            (r1, reqError, w1) =
               (if DeviceType p = ''panorama'' \<and> length devicegroup \<le> 0
                then sendAndCheckInto reqError ''post'' (URI p) deviceQuery w
                else (None, reqError, w))
        in case r1 of
             Some e \<Rightarrow> (Some e, w1)
           | None \<Rightarrow>
               if DeviceType p = ''panorama'' \<and> length devicegroup > 0 then
                 (let xpath = deviceGroupPath (hd devicegroup);
                      xmlBody = ''<devices>'' @ deviceBody @ ''</devices>'';
                      (r2, reqError, w2) = sendAndCheckInto reqError ''post'' (URI p) deviceQuery w1
                  in case r2 of
                       Some e \<Rightarrow> (Some e, w2)
                     | None \<Rightarrow>
                         let query = [(''type'', ''config''), (''action'', ''set''), (''xpath'', xpath),
                                      (''element'', xmlBody), (''key'', Key p)];
                             (r3, reqError, w3) = sendAndCheckInto reqError ''post'' (URI p) query w2
                         in (r3, w3))
               else (None, w1))"

definition SetPanoramaServer :: "PaloAlto \<Rightarrow> string \<Rightarrow> world \<Rightarrow> error option \<times> world" where
  "SetPanoramaServer p ip w =
     (let xpath = localhost @ ''/deviceconfig/system'';
          xmlBody = ''<panorama-server>'' @ ip @ ''</panorama-server>''
      in if DeviceType p = ''panorama'' \<and> Panorama p = True
         then (Some (needPanorama
                 ''a non-Panorama device in order to configure a Panorama server''), w)
         else
           let query = [(''type'', ''config''), (''action'', ''set''), (''xpath'', xpath),
                        (''key'', Key p), (''element'', xmlBody)]
           in sendAndCheck ''post'' (URI p) query w)"

definition RemoveDevice :: "PaloAlto \<Rightarrow> string \<Rightarrow> string list \<Rightarrow> world \<Rightarrow> error option \<times> world" where
  "RemoveDevice p serial devicegroup w =
     (if DeviceType p = ''panos'' \<or> DeviceType p \<noteq> ''panorama''
      then (Some (needPanorama ''Panorama when removing devices''), w)
      else
        let xpath = [];
            xpath = (if DeviceType p = ''panorama'' \<and> length devicegroup \<le> 0
                     then ''/config/mgt-config/devices'' @ entry serial else xpath);
            xpath = (if DeviceType p = ''panorama'' \<and> length devicegroup > 0
                     then deviceGroupPath (hd devicegroup) @ ''/devices'' @ entry serial else xpath);
            query = [(''type'', ''config''), (''action'', ''delete''), (''xpath'', xpath), (''key'', Key p)]
        in sendAndCheck ''post'' (URI p) query w)"

section \<open>Tags\<close>

text \<open>
  The inner loop of \<^verbatim>\<open>Tags\<close>, \<^verbatim>\<open>for k, v := range tagColors { if t.Color == v { tcolor = k } }\<close>:
  it starts from the current value of \<^verbatim>\<open>tcolor\<close> and returns the new one.
\<close>

fun colorName :: "params \<Rightarrow> string \<Rightarrow> string \<Rightarrow> string" where
  "colorName [] color tcolor = tcolor"
| "colorName ((k, v) # kvs) color tcolor = colorName kvs color (if color = v then k else tcolor)"

text \<open>
  The outer loop, \<^verbatim>\<open>for _, t := range parsedTags.Tags\<close>. The variable \<^verbatim>\<open>tcolor\<close> is declared
  before the loop, so it is an argument that each round hands to the next.
\<close>

fun tagsLoop :: "xmlTag list \<Rightarrow> string \<Rightarrow> Tag list \<Rightarrow> Tag list" where
  "tagsLoop [] tcolor tags = tags"
| "tagsLoop (t # ts) tcolor tags =
     (let tname = xtag_Name t;
          tcolor = colorName tagColors (xtag_Color t) tcolor;
          tcomments = xtag_Comments t
      in tagsLoop ts tcolor
           (tags @ [\<lparr>tag_Name = tname, tag_Color = tcolor, tag_Comments = tcomments\<rparr>]))"

definition Tags :: "PaloAlto \<Rightarrow> world \<Rightarrow> (error + Tag list) \<times> world" where
  "Tags p w =
     (let tcolor = [];
          xpath = ''/config/devices/entry//tag'';
          xpath = (if DeviceType p = ''panos'' \<and> Panorama p = True then ''/config/panorama//tag'' else xpath);
          xpath = (if DeviceType p = ''panorama'' then ''/config/devices/entry//tag'' else xpath);
          query = [(''type'', ''config''), (''action'', ''get''), (''xpath'', xpath), (''key'', Key p)]
      in sendAndParse (URI p) query (\<lambda>parsedTags. tagsLoop (xml_tag parsedTags) tcolor []) w)"

definition tagBody :: "string \<Rightarrow> string \<Rightarrow> string" where
  "tagBody color comments =
     (let xmlBody = ''<color>'' @ index tagColors color @ ''</color>''
      in if comments \<noteq> [] then xmlBody @ ''<comments>'' @ comments @ ''</comments>'' else xmlBody)"

definition CreateTag ::
  "PaloAlto \<Rightarrow> string \<Rightarrow> string \<Rightarrow> string \<Rightarrow> string list \<Rightarrow> world \<Rightarrow> error option \<times> world" where
  "CreateTag p name color comments devicegroup w =
     (let xmlBody = tagBody color comments;
          xpath = objectXpath p ''/tag'' name devicegroup
      in if DeviceType p = ''panorama'' \<and> length devicegroup \<le> 0 then (Some needDeviceGroup, w)
         else
           let query = [(''type'', ''config''), (''action'', ''set''), (''xpath'', xpath),
                        (''element'', xmlBody), (''key'', Key p)]
           in sendAndCheck ''post'' (URI p) query w)"

definition DeleteTag :: "PaloAlto \<Rightarrow> string \<Rightarrow> string list \<Rightarrow> world \<Rightarrow> error option \<times> world" where
  "DeleteTag p name devicegroup w =
     (let xpath = objectXpath p ''/tag'' name devicegroup
      in if DeviceType p = ''panorama'' \<and> length devicegroup \<le> 0 then (Some needDeviceGroup, w)
         else
           let query = [(''type'', ''config''), (''action'', ''delete''), (''xpath'', xpath), (''key'', Key p)]
           in sendAndCheck ''get'' (URI p) query w)"

section \<open>Applying and removing tags\<close>

text \<open>
  A call of \<^verbatim>\<open>ApplyTag\<close> or \<^verbatim>\<open>RemoveTag\<close> either returns an error value (possibly \<^verbatim>\<open>nil\<close>) or
  panics on a nil pointer.
\<close>

datatype 'a outcome = Return 'a | Panic

text \<open>
  \<^verbatim>\<open>adObj, _ := p.Addresses()\<close>: the pointer is kept and the error dropped. The pointer is
  \<^verbatim>\<open>nil\<close> (\<open>None\<close>) when the listing returned an error.
\<close>

definition dropError :: "error + 'a \<Rightarrow> 'a option" where
  "dropError r = (case r of Inl err \<Rightarrow> None | Inr v \<Rightarrow> Some v)"

text \<open>
  One of the four search loops, \<^verbatim>\<open>for _, a := range adObj.Addresses { if object == a.Name { ... } }\<close>,
  over the names of one listing. The loops differ in the category segment of the locator
  only; \<open>leaf\<close> is what follows the object's entry (\<^verbatim>\<open>/tag\<close> in \<^verbatim>\<open>ApplyTag\<close>, the member test in
  \<^verbatim>\<open>RemoveTag\<close>). The result \<open>Some r\<close> is \<^verbatim>\<open>return r\<close> from inside the loop, \<open>None\<close> is the loop
  running to its end. The assignment \<^verbatim>\<open>query["xpath"] = xpath\<close> adds a key the map did not
  have.
\<close>

fun searchLoop ::
  "PaloAlto \<Rightarrow> params \<Rightarrow> string \<Rightarrow> string \<Rightarrow> string \<Rightarrow> string list \<Rightarrow> string list \<Rightarrow> world
     \<Rightarrow> error option option \<times> world" where
  "searchLoop p query category leaf object devicegroup [] w = (None, w)"
| "searchLoop p query category leaf object devicegroup (n # ns) w =
     (if object = n then
        if DeviceType p = ''panos'' then
          (let xpath = vsys1 @ category @ entry object @ leaf;
               (r, w') = sendAndCheck ''post'' (URI p) (query @ [(''xpath'', xpath)]) w
           in (Some r, w'))
        else if DeviceType p = ''panorama'' \<and> length devicegroup > 0 then
          (let xpath = deviceGroupPath (hd devicegroup) @ category @ entry object @ leaf;
               (r, w') = sendAndCheck ''post'' (URI p) (query @ [(''xpath'', xpath)]) w
           in (Some r, w'))
        else if DeviceType p = ''panorama'' \<and> length devicegroup \<le> 0 then
          (Some (Some needDeviceGroup), w)
        else searchLoop p query category leaf object devicegroup ns w
      else searchLoop p query category leaf object devicegroup ns w)"

text \<open>
  The four loops in the order of the source. Reaching a loop reads the field of the
  listing's pointer (\<^verbatim>\<open>adObj.Addresses\<close>, \<^verbatim>\<open>agObj.Groups\<close>, \<^verbatim>\<open>sObj.Services\<close>, \<^verbatim>\<open>sgObj.Groups\<close>),
  which panics when the pointer is \<^verbatim>\<open>nil\<close>.
\<close>

definition searchAll ::
  "PaloAlto \<Rightarrow> params \<Rightarrow> string \<Rightarrow> string \<Rightarrow> string list
     \<Rightarrow> Address list option \<Rightarrow> AddressGroup list option
     \<Rightarrow> Service list option \<Rightarrow> ServiceGroup list option
     \<Rightarrow> world \<Rightarrow> error option outcome \<times> world" where
  "searchAll p query leaf object devicegroup adObj agObj sObj sgObj w =
     (case adObj of None \<Rightarrow> (Panic, w) | Some ads \<Rightarrow>
      case searchLoop p query ''/address'' leaf object devicegroup (map addr_Name ads) w of
        (Some r, w') \<Rightarrow> (Return r, w')
      | (None, w') \<Rightarrow>
     (case agObj of None \<Rightarrow> (Panic, w') | Some ags \<Rightarrow>
      case searchLoop p query ''/address-group'' leaf object devicegroup (map ag_Name ags) w' of
        (Some r, w') \<Rightarrow> (Return r, w')
      | (None, w') \<Rightarrow>
     (case sObj of None \<Rightarrow> (Panic, w') | Some ss \<Rightarrow>
      case searchLoop p query ''/service'' leaf object devicegroup (map svc_Name ss) w' of
        (Some r, w') \<Rightarrow> (Return r, w')
      | (None, w') \<Rightarrow>
     (case sgObj of None \<Rightarrow> (Panic, w') | Some sgs \<Rightarrow>
      case searchLoop p query ''/service-group'' leaf object devicegroup (map sg_Name sgs) w' of
        (Some r, w') \<Rightarrow> (Return r, w')
      | (None, w') \<Rightarrow> (Return None, w')))))"

text \<open>
  The four listing calls that both functions start with,
  \<^verbatim>\<open>
  adObj, _ := p.Addresses()
  agObj, _ := p.AddressGroups()
  sObj, _ := p.Services()
  sgObj, _ := p.ServiceGroups()
  \<close>
\<close>

definition listAll ::
  "PaloAlto \<Rightarrow> world
     \<Rightarrow> (Address list option \<times> AddressGroup list option
          \<times> Service list option \<times> ServiceGroup list option) \<times> world" where
  "listAll p w =
     (let (ad, w1) = Addresses p [] w;
          (ag, w2) = AddressGroups p [] w1;
          (s, w3) = Services p [] w2;
          (sg, w4) = ServiceGroups p [] w3
      in ((dropError ad, dropError ag, dropError s, dropError sg), w4))"

definition ApplyTag ::
  "PaloAlto \<Rightarrow> string \<Rightarrow> string \<Rightarrow> string list \<Rightarrow> world \<Rightarrow> error option outcome \<times> world" where
  "ApplyTag p tag object devicegroup w =
     (let tags = Split tag (CHR '','');
          ((adObj, agObj, sObj, sgObj), w4) = listAll p w;
          xmlBody = ''<tag>'' @ members tags @ ''</tag>'';
          query = [(''type'', ''config''), (''action'', ''edit''), (''element'', xmlBody), (''key'', Key p)]
      in searchAll p query ''/tag'' object devicegroup adObj agObj sObj sgObj w4)"

definition RemoveTag ::
  "PaloAlto \<Rightarrow> string \<Rightarrow> string \<Rightarrow> string list \<Rightarrow> world \<Rightarrow> error option outcome \<times> world" where
  "RemoveTag p tag object devicegroup w =
     (let ((adObj, agObj, sObj, sgObj), w4) = listAll p w;
          query = [(''type'', ''config''), (''action'', ''delete''), (''key'', Key p)]
      in searchAll p query (''/tag/member[text()='' @ [CHR 0x27] @ tag @ [CHR 0x27] @ '']'')
           object devicegroup adObj agObj sObj sgObj w4)"

section \<open>Commit\<close>

definition Commit :: "PaloAlto \<Rightarrow> world \<Rightarrow> error option \<times> world" where
  "Commit p w =
     (let query = [(''type'', ''commit''), (''cmd'', ''<commit></commit>''), (''key'', Key p)]
      in sendAndCheck ''get'' (URI p) query w)"

text \<open>The loop of \<^verbatim>\<open>CommitAll\<close> over the serial numbers.\<close>

fun commitEntries :: "string list \<Rightarrow> string" where
  "commitEntries [] = []"
| "commitEntries (d # ds) = ''<entry name='' @ [CHR 0x22] @ d @ [CHR 0x22] @ ''/>'' @ commitEntries ds"

definition CommitAll :: "PaloAlto \<Rightarrow> string \<Rightarrow> string list \<Rightarrow> world \<Rightarrow> error option \<times> world" where
  "CommitAll p devicegroup devices w =
     (let cmd = [];
          cmd = (if DeviceType p = ''panorama'' \<and> length devices \<le> 0
                 then ''<commit-all><shared-policy><device-group><entry name='' @ [CHR 0x22] @ devicegroup
                      @ [CHR 0x22] @ ''/></device-group></shared-policy></commit-all>''
                 else cmd);
          cmd = (if DeviceType p = ''panorama'' \<and> length devices > 0
                 then ''<commit-all><shared-policy><device-group><name>'' @ devicegroup @ ''</name><devices>''
                      @ commitEntries devices
                      @ ''</devices></device-group></shared-policy></commit-all>''
                 else cmd);
          query = [(''type'', ''commit''), (''action'', ''all''), (''cmd'', cmd), (''key'', Key p)]
      in sendAndCheck ''get'' (URI p) query w)"

section \<open>Session establishment\<close>

text \<open>
  \<^verbatim>\<open>NewSession\<close>: three requests whose parameters are part of the URL. The status of the first
  two documents is tested; the third document (\<^verbatim>\<open>panoramaStatus\<close>) is only searched for the
  text \<^verbatim>\<open>": yes"\<close> (\<^verbatim>\<open>strings.Contains\<close>).
\<close>

definition Contains :: "string \<Rightarrow> string \<Rightarrow> bool" where
  "Contains s substr = sublist substr s"

text \<open>The URL of the first request and of the two \<^verbatim>\<open>type=op\<close> requests.\<close>

definition keygenUrl :: "string \<Rightarrow> string \<Rightarrow> string \<Rightarrow> string" where
  "keygenUrl host user passwd =
     ''https://'' @ host @ ''/api/?type=keygen&user='' @ user @ ''&password='' @ passwd"

definition opUrl :: "string \<Rightarrow> string \<Rightarrow> string \<Rightarrow> string" where
  "opUrl uri key cmd = uri @ ''&key='' @ key @ ''&type=op&cmd='' @ cmd"

text \<open>\<^verbatim>\<open>fmt.Errorf("error code %s: %s (<step>)", code, errorCodes[code])\<close>.\<close>

definition codeErrorAt :: "string \<Rightarrow> string \<Rightarrow> error" where
  "codeErrorAt code step =
     OperationError (''error code '' @ code @ '': '' @ index errorCodes code @ '' ('' @ step @ '')'')"

definition NewSession :: "string \<Rightarrow> string \<Rightarrow> string \<Rightarrow> world \<Rightarrow> (error + PaloAlto) \<times> world" where
  "NewSession host user passwd w =
     (let status = False;
          deviceType = ''panos'';
          (resp, w1) = Send ''get'' (keygenUrl host user passwd) [] [] w
      in case Error resp of Some e \<Rightarrow> (Inl (TransportError e), w1) | None \<Rightarrow>
         case Unmarshal (Body resp) of Inl err \<Rightarrow> (Inl err, w1) | Inr key \<Rightarrow>
         if statusOf key \<noteq> ''success''
         then (Inl (codeErrorAt (codeOf key) ''keygen''), w1)
         else
     (let uri = ''https://'' @ host @ ''/api/?'';
          (getInfo, w2) = Send ''get''
             (opUrl uri (xml_key key) ''<show><system><info></info></system></show>'') [] [] w1
      in case Error getInfo of Some e \<Rightarrow> (Inl (TransportError e), w2) | None \<Rightarrow>
         case Unmarshal (Body getInfo) of Inl err \<Rightarrow> (Inl err, w2) | Inr info \<Rightarrow>
         if statusOf info \<noteq> ''success''
         then (Inl (codeErrorAt (codeOf info) ''show system info''), w2)
         else
     (let (panStatus, w3) = Send ''get''
             (opUrl uri (xml_key key) ''<show><panorama-status></panorama-status></show>'') [] [] w2
      in case Error panStatus of Some e \<Rightarrow> (Inl (TransportError e), w3) | None \<Rightarrow>
         case Unmarshal (Body panStatus) of Inl err \<Rightarrow> (Inl err, w3) | Inr pan \<Rightarrow>
         let deviceType = (if xml_platform_family info = ''m'' then ''panorama'' else deviceType);
             status = (if Contains (xml_result pan) '': yes'' then True else status)
         in (Inr \<lparr>Host = host,
                  Key = xml_key key,
                  URI = ''https://'' @ host @ ''/api/?'',
                  Platform = xml_platform_family info,
                  Model = xml_model info,
                  Serial = xml_serial info,
                  SoftwareVersion = xml_sw_version info,
                  DeviceType = deviceType,
                  Panorama = status\<rparr>, w3))))"

section \<open>The public operations as one family\<close>

text \<open>
  A call of a public operation, with its arguments. The result of a call is the error
  value it returns, or the panic of \<^verbatim>\<open>ApplyTag\<close> and \<^verbatim>\<open>RemoveTag\<close>.
\<close>

datatype call =
  CallNewSession string string string
| CallDevices
| CallDeviceGroups
| CallCreateDeviceGroup string string "string list option"
| CallDeleteDeviceGroup string
| CallAddDevice string "string list"
| CallSetPanoramaServer string
| CallRemoveDevice string "string list"
| CallTags
| CallCreateTag string string string "string list"
| CallDeleteTag string "string list"
| CallApplyTag string string "string list"
| CallRemoveTag string string "string list"
| CallCommit
| CallCommitAll string "string list"
| CallAddresses "string list"
| CallAddressGroups "string list"
| CallCreateAddress string string string string "string list"
| CallCreateSharedAddress string string string string
| CallCreateStaticGroup string string string "string list"
| CallCreateSharedStaticGroup string string string
| CallCreateDynamicGroup string string string "string list"
| CallCreateSharedDynamicGroup string string string
| CallDeleteAddress string "string list"
| CallDeleteSharedAddress string
| CallDeleteAddressGroup string "string list"
| CallDeleteSharedAddressGroup string

text \<open>The error component of a result pair \<^verbatim>\<open>(value, error)\<close>.\<close>

definition errorOf :: "(error + 'a) \<times> world \<Rightarrow> error option \<times> world" where
  "errorOf r = (case fst r of Inl err \<Rightarrow> (Some err, snd r) | Inr v \<Rightarrow> (None, snd r))"

text \<open>A call that returns, with the error value it returns.\<close>

definition returned :: "error option \<times> world \<Rightarrow> error option outcome \<times> world" where
  "returned r = (Return (fst r), snd r)"

fun run :: "PaloAlto \<Rightarrow> call \<Rightarrow> world \<Rightarrow> error option outcome \<times> world" where
  "run p (CallNewSession host user passwd) w = returned (errorOf (NewSession host user passwd w))"
| "run p CallDevices w = returned (errorOf (Devices p w))"
| "run p CallDeviceGroups w = returned (errorOf (DeviceGroups p w))"
| "run p (CallCreateDeviceGroup name description devices) w = returned (CreateDeviceGroup p name description devices w)"
| "run p (CallDeleteDeviceGroup name) w = returned (DeleteDeviceGroup p name w)"
| "run p (CallAddDevice serial devicegroup) w = returned (AddDevice p serial devicegroup w)"
| "run p (CallSetPanoramaServer ip) w = returned (SetPanoramaServer p ip w)"
| "run p (CallRemoveDevice serial devicegroup) w = returned (RemoveDevice p serial devicegroup w)"
| "run p CallTags w = returned (errorOf (Tags p w))"
| "run p (CallCreateTag name color comments devicegroup) w = returned (CreateTag p name color comments devicegroup w)"
| "run p (CallDeleteTag name devicegroup) w = returned (DeleteTag p name devicegroup w)"
| "run p (CallApplyTag tag object devicegroup) w = ApplyTag p tag object devicegroup w"
| "run p (CallRemoveTag tag object devicegroup) w = RemoveTag p tag object devicegroup w"
| "run p CallCommit w = returned (Commit p w)"
| "run p (CallCommitAll devicegroup devices) w = returned (CommitAll p devicegroup devices w)"
| "run p (CallAddresses devicegroup) w = returned (errorOf (Addresses p devicegroup w))"
| "run p (CallAddressGroups devicegroup) w = returned (errorOf (AddressGroups p devicegroup w))"
| "run p (CallCreateAddress name addrtype address description devicegroup) w =
     returned (CreateAddress p name addrtype address description devicegroup w)"
| "run p (CallCreateSharedAddress name addrtype address description) w =
     returned (CreateSharedAddress p name addrtype address description w)"
| "run p (CallCreateStaticGroup name mems description devicegroup) w =
     returned (CreateStaticGroup p name mems description devicegroup w)"
| "run p (CallCreateSharedStaticGroup name mems description) w =
     returned (CreateSharedStaticGroup p name mems description w)"
| "run p (CallCreateDynamicGroup name criteria description devicegroup) w =
     returned (CreateDynamicGroup p name criteria description devicegroup w)"
| "run p (CallCreateSharedDynamicGroup name criteria description) w =
     returned (CreateSharedDynamicGroup p name criteria description w)"
| "run p (CallDeleteAddress name devicegroup) w = returned (DeleteAddress p name devicegroup w)"
| "run p (CallDeleteSharedAddress name) w = returned (DeleteSharedAddress p name w)"
| "run p (CallDeleteAddressGroup name devicegroup) w = returned (DeleteAddressGroup p name devicegroup w)"
| "run p (CallDeleteSharedAddressGroup name) w = returned (DeleteSharedAddressGroup p name w)"




text \<open>What the shared tail makes of a document: the status decides.\<close>

definition classify :: "document \<Rightarrow> error option" where
  "classify env = verdict (unmarshalled env zeroError)"


section \<open>Notions of the specification\<close>

text \<open>
  The category that a name resolves to when the categories are searched in the order
  address, address-group, service, service-group: the first one whose listing has the name.
\<close>

definition firstCategory ::
  "string \<Rightarrow> Address list \<Rightarrow> AddressGroup list \<Rightarrow> Service list \<Rightarrow> ServiceGroup list
     \<Rightarrow> string option" where
  "firstCategory object ads ags ss sgs =
     (if object \<in> set (map addr_Name ads) then Some ''/address''
      else if object \<in> set (map ag_Name ags) then Some ''/address-group''
      else if object \<in> set (map svc_Name ss) then Some ''/service''
      else if object \<in> set (map sg_Name sgs) then Some ''/service-group''
      else None)"

text \<open>The color code of a tag is known when the color table has it as a value.\<close>

definition knownColor :: "xmlTag \<Rightarrow> bool" where
  "knownColor t = (xtag_Color t \<in> set (map snd tagColors))"

text \<open>The name that the color table gives for a code.\<close>

definition nameOfCode :: "string \<Rightarrow> string" where
  "nameOfCode code = (case find (\<lambda>kv. snd kv = code) tagColors of Some kv \<Rightarrow> fst kv | None \<Rightarrow> [])"

text \<open>
  The color name resolved for the most recent tag of \<open>ts\<close> whose code is known, and the
  empty string when there is none.
\<close>

definition carriedColor :: "xmlTag list \<Rightarrow> string" where
  "carriedColor ts =
     (case filter knownColor (rev ts) of [] \<Rightarrow> [] | t # _ \<Rightarrow> nameOfCode (xtag_Color t))"

text \<open>
  A search loop returns from the function when the name is in its listing and the device
  type is one of the two that the loop body tests for.
\<close>

definition loopReturns :: "PaloAlto \<Rightarrow> string \<Rightarrow> string list \<Rightarrow> bool" where
  "loopReturns p object names =
     (object \<in> set names \<and> (DeviceType p = ''panos'' \<or> DeviceType p = ''panorama''))"

text \<open>
  The request that a listing operation sends when it is called without a device-group, by
  the category segment of its locator.
\<close>

definition listRequest :: "PaloAlto \<Rightarrow> string \<Rightarrow> request" where
  "listRequest p category =
     \<lparr>Method = ''get'', Url = URI p, Headers = headers,
      Query = [(''type'', ''config''), (''action'', ''get''),
               (''xpath'', if DeviceType p = ''panos'' \<and> Panorama p then ''/config/panorama//'' @ category
                           else if DeviceType p = ''panos'' then vsys1 @ ''/'' @ category
                           else ''/config/devices/entry//'' @ category),
               (''key'', Key p)]\<rparr>"

text \<open>
  The locator prefix of a search loop that sends: the \<^verbatim>\<open>vsys1\<close> path on a standalone device,
  the device-group path otherwise.
\<close>

definition scopePath :: "PaloAlto \<Rightarrow> string list \<Rightarrow> string" where
  "scopePath p devicegroup =
     (if DeviceType p = ''panos'' then vsys1 else deviceGroupPath (hd devicegroup))"

text \<open>The request of a search loop: the query with the locator added.\<close>

definition mutation :: "PaloAlto \<Rightarrow> params \<Rightarrow> string \<Rightarrow> request" where
  "mutation p query xpath =
     \<lparr>Method = ''post'', Url = URI p, Headers = [], Query = query @ [(''xpath'', xpath)]\<rparr>"

text \<open>
  When \<^verbatim>\<open>ApplyTag\<close> and \<^verbatim>\<open>RemoveTag\<close> reach a nil pointer: a listing has failed and no search
  loop before it has returned.
\<close>

definition panics ::
  "PaloAlto \<Rightarrow> string \<Rightarrow> Address list option \<Rightarrow> AddressGroup list option
     \<Rightarrow> Service list option \<Rightarrow> ServiceGroup list option \<Rightarrow> bool" where
  "panics p object adObj agObj sObj sgObj =
     (case adObj of None \<Rightarrow> True | Some ads \<Rightarrow>
        \<not> loopReturns p object (map addr_Name ads) \<and>
     (case agObj of None \<Rightarrow> True | Some ags \<Rightarrow>
        \<not> loopReturns p object (map ag_Name ags) \<and>
     (case sObj of None \<Rightarrow> True | Some ss \<Rightarrow>
        \<not> loopReturns p object (map svc_Name ss) \<and>
     (case sgObj of None \<Rightarrow> True | Some sgs \<Rightarrow> False))))"

text \<open>The pointer that a listing call yields for a response, its error dropped.\<close>

definition listing :: "(document \<Rightarrow> 'a) \<Rightarrow> response \<Rightarrow> 'a option" where
  "listing proj r =
     (case Body r of Malformed e \<Rightarrow> None
      | Doc d \<Rightarrow> if statusOf d \<noteq> ''success'' then None else Some (proj d))"

text \<open>The four listing requests of \<^verbatim>\<open>ApplyTag\<close> and \<^verbatim>\<open>RemoveTag\<close>, in the order sent.\<close>

definition listRequests :: "PaloAlto \<Rightarrow> request list" where
  "listRequests p =
     [listRequest p ''address'', listRequest p ''address-group'',
      listRequest p ''service'', listRequest p ''service-group'']"

text \<open>The query of \<^verbatim>\<open>ApplyTag\<close> before the locator is added.\<close>

definition applyQuery :: "PaloAlto \<Rightarrow> string \<Rightarrow> params" where
  "applyQuery p tag =
     [(''type'', ''config''), (''action'', ''edit''),
      (''element'', ''<tag>'' @ members (Split tag (CHR '','')) @ ''</tag>''), (''key'', Key p)]"

section \<open>Example sessions and devices\<close>

definition firewall :: PaloAlto where
  "firewall = \<lparr>Host = ''fw1'', Key = ''k1'', URI = ''https://fw1/api/?'', Platform = ''vm'',
               Model = ''PA-VM'', Serial = ''007'', SoftwareVersion = ''7.0.1'',
               DeviceType = ''panos'', Panorama = False\<rparr>"

definition panorama :: PaloAlto where
  "panorama = \<lparr>Host = ''pano1'', Key = ''k2'', URI = ''https://pano1/api/?'', Platform = ''m'',
               Model = ''M-100'', Serial = ''009'', SoftwareVersion = ''7.0.1'',
               DeviceType = ''panorama'', Panorama = False\<rparr>"

definition reply :: "string \<Rightarrow> string \<Rightarrow> document" where
  "reply status code =
     \<lparr>xml_status = Some status, xml_code = Some code, xml_key = [], xml_msg = None,
      xml_platform_family = [],
      xml_model = [], xml_serial = [], xml_sw_version = [], xml_result = [], xml_address = [],
      xml_address_group = [], xml_service = [], xml_service_group = [], xml_tag = [],
      xml_devices = [], xml_device_group = []\<rparr>"

definition answer :: "document \<Rightarrow> response" where
  "answer d = \<lparr>Error = None, Body = Doc d\<rparr>"

text \<open>A device that gives the same answer to every request.\<close>

definition always :: "response \<Rightarrow> request list \<Rightarrow> response" where
  "always r log = r"

text \<open>A device that answers its first requests from a list and every later one with \<open>r\<close>.\<close>

definition scripted :: "response list \<Rightarrow> response \<Rightarrow> request list \<Rightarrow> response" where
  "scripted rs r log = (case drop (length log - 1) rs of x # xs \<Rightarrow> x | [] \<Rightarrow> r)"

definition fresh :: "(request list \<Rightarrow> response) \<Rightarrow> world" where
  "fresh dev = \<lparr>device = dev, sent = []\<rparr>"

definition srv1 :: Address where
  "srv1 = \<lparr>addr_Name = ''srv1'', addr_IPAddress = ''10.0.0.5/32'', addr_IPRange = [],
           addr_FQDN = [], addr_Description = []\<rparr>"

definition keyReply :: document where
  "keyReply = (reply ''success'' ''19'')\<lparr>xml_key := ''k1''\<rparr>"

definition infoReply :: "string \<Rightarrow> document" where
  "infoReply family =
     (reply ''success'' ''19'')\<lparr>xml_platform_family := family, xml_model := ''PA-VM'',
        xml_serial := ''007'', xml_sw_version := ''7.0.1''\<rparr>"

text \<open>
  A device at login: it hands out a key, reports the platform family and answers the
  panorama-status command with the document \<open>pan\<close>.
\<close>

definition login :: "string \<Rightarrow> document \<Rightarrow> request list \<Rightarrow> response" where
  "login family pan =
     scripted [answer keyReply, answer (infoReply family), answer pan] (answer (reply ''success'' ''19''))"

text \<open>
  The three requests of \<^verbatim>\<open>NewSession\<close> and the session it returns, named for the statements
  below.
\<close>

definition infoRequest :: "string \<Rightarrow> document \<Rightarrow> request" where
  "infoRequest h key =
     \<lparr>Method = ''get'',
      Url = opUrl (''https://'' @ h @ ''/api/?'') (xml_key key) ''<show><system><info></info></system></show>'',
      Headers = [], Query = []\<rparr>"

definition statusRequest :: "string \<Rightarrow> document \<Rightarrow> request" where
  "statusRequest h key =
     \<lparr>Method = ''get'',
      Url = opUrl (''https://'' @ h @ ''/api/?'') (xml_key key) ''<show><panorama-status></panorama-status></show>'',
      Headers = [], Query = []\<rparr>"

definition keygenRequest :: "string \<Rightarrow> string \<Rightarrow> string \<Rightarrow> request" where
  "keygenRequest h u pw = \<lparr>Method = ''get'', Url = keygenUrl h u pw, Headers = [], Query = []\<rparr>"

definition session :: "string \<Rightarrow> document \<Rightarrow> document \<Rightarrow> document \<Rightarrow> PaloAlto" where
  "session h key info pan =
     \<lparr>Host = h, Key = xml_key key, URI = ''https://'' @ h @ ''/api/?'',
      Platform = xml_platform_family info, Model = xml_model info, Serial = xml_serial info,
      SoftwareVersion = xml_sw_version info,
      DeviceType = (if xml_platform_family info = ''m'' then ''panorama'' else ''panos''),
      Panorama = Contains (xml_result pan) '': yes''\<rparr>"

text \<open>
  A device that answers the four listing requests with the given documents and every
  later request with success.
\<close>

definition catalog :: "document \<Rightarrow> document \<Rightarrow> document \<Rightarrow> document \<Rightarrow> request list \<Rightarrow> response" where
  "catalog d1 d2 d3 d4 =
     scripted [answer d1, answer d2, answer d3, answer d4] (answer (reply ''success'' ''19''))"

definition addressList :: document where
  "addressList = (reply ''success'' ''19'')\<lparr>xml_address := [srv1]\<rparr>"

definition serviceList :: document where
  "serviceList = (reply ''success'' ''19'')\<lparr>xml_service := [\<lparr>svc_Name = ''srv1''\<rparr>]\<rparr>"

definition tagList :: document where
  "tagList = (reply ''success'' ''19'')
     \<lparr>xml_tag := [\<lparr>xtag_Name = ''web'', xtag_Color = ''color1'', xtag_Comments = []\<rparr>,
                  \<lparr>xtag_Name = ''db'', xtag_Color = ''color99'', xtag_Comments = []\<rparr>]\<rparr>"

section \<open>The request tail decides by the status\<close>

lemma sendAndCheck_eq:
  "sendAndCheck m u q w =
     (checkResponse (device w (sent w @ [\<lparr>Method = m, Url = u, Headers = [], Query = q\<rparr>])),
      w\<lparr>sent := sent w @ [\<lparr>Method = m, Url = u, Headers = [], Query = q\<rparr>]\<rparr>)"
  by (simp add: sendAndCheck_def Send_def Let_def)

lemma classify_eq:
  "classify env = (if statusOf env = ''success'' then None else Some (codeError (codeOf env)))"
  by (simp add: classify_def verdict_def unmarshalled_def statusOf_def codeOf_def zeroError_def)

lemma checkResponseInto_Doc:
  "checkResponseInto reqError \<lparr>Error = None, Body = Doc env\<rparr> =
     (verdict (unmarshalled env reqError), unmarshalled env reqError)"
  by (simp add: checkResponseInto_def)

lemma checkResponse_Doc:
  "checkResponse \<lparr>Error = None, Body = Doc env\<rparr> = classify env"
  by (simp add: checkResponse_def checkResponseInto_Doc classify_def)


lemma sendAndParse_eq:
  "sendAndParse u q proj w =
     (let w' = w\<lparr>sent := sent w @ [\<lparr>Method = ''get'', Url = u, Headers = headers, Query = q\<rparr>]\<rparr> in
      case Unmarshal (Body (device w (sent w'))) of
        Inl err \<Rightarrow> (Inl err, w')
      | Inr parsed \<Rightarrow>
          if statusOf parsed \<noteq> ''success'' then (Inl (codeError (codeOf parsed)), w')
          else (Inr (proj parsed), w'))"
  by (simp add: sendAndParse_def Send_def Let_def)

lemma sendAndParse_snd:
  "snd (sendAndParse u q proj w) =
     w\<lparr>sent := sent w @ [\<lparr>Method = ''get'', Url = u, Headers = headers, Query = q\<rparr>]\<rparr>"
  by (simp add: sendAndParse_eq Let_def split: sum.splits)





lemma sendAndCheckInto_eq:
  "sendAndCheckInto reqError m u q w =
     (fst (checkResponseInto reqError
             (device w (sent w @ [\<lparr>Method = m, Url = u, Headers = [], Query = q\<rparr>]))),
      snd (checkResponseInto reqError
             (device w (sent w @ [\<lparr>Method = m, Url = u, Headers = [], Query = q\<rparr>]))),
      w\<lparr>sent := sent w @ [\<lparr>Method = m, Url = u, Headers = [], Query = q\<rparr>]\<rparr>)"
  by (simp add: sendAndCheckInto_def Send_def Let_def split_beta)






section \<open>The stages of session establishment\<close>


lemma NewSession_keygen:
  fixes h u pw w
  defines "s1 \<equiv> sent w @ [keygenRequest h u pw]"
  defines "r1 \<equiv> device w s1"
  shows "Error r1 = Some e \<Longrightarrow> NewSession h u pw w = (Inl (TransportError e), w\<lparr>sent := s1\<rparr>)"
    and "Error r1 = None \<Longrightarrow> Body r1 = Malformed m \<Longrightarrow>
           NewSession h u pw w = (Inl (ParseError m), w\<lparr>sent := s1\<rparr>)"
    and "Error r1 = None \<Longrightarrow> Body r1 = Doc key \<Longrightarrow> statusOf key \<noteq> ''success'' \<Longrightarrow>
           NewSession h u pw w = (Inl (codeErrorAt (codeOf key) ''keygen''), w\<lparr>sent := s1\<rparr>)"
  unfolding s1_def r1_def
  by (simp_all add: NewSession_def Send_def Let_def Unmarshal_def keygenRequest_def)

lemma NewSession_info:
  fixes h u pw w key
  defines "s1 \<equiv> sent w @ [keygenRequest h u pw]"
  defines "r1 \<equiv> device w s1"
  defines "s2 \<equiv> s1 @ [infoRequest h key]"
  defines "r2 \<equiv> device w s2"
  assumes ok1: "Error r1 = None" "Body r1 = Doc key" "statusOf key = ''success''"
  shows "Error r2 = Some e \<Longrightarrow> NewSession h u pw w = (Inl (TransportError e), w\<lparr>sent := s2\<rparr>)"
    and "Error r2 = None \<Longrightarrow> Body r2 = Malformed m \<Longrightarrow>
           NewSession h u pw w = (Inl (ParseError m), w\<lparr>sent := s2\<rparr>)"
    and "Error r2 = None \<Longrightarrow> Body r2 = Doc info \<Longrightarrow> statusOf info \<noteq> ''success'' \<Longrightarrow>
           NewSession h u pw w = (Inl (codeErrorAt (codeOf info) ''show system info''), w\<lparr>sent := s2\<rparr>)"
  using ok1 unfolding s1_def r1_def s2_def r2_def
  by (simp_all add: NewSession_def Send_def Let_def Unmarshal_def keygenRequest_def infoRequest_def)

lemma NewSession_status:
  fixes h u pw w key info
  defines "s1 \<equiv> sent w @ [keygenRequest h u pw]"
  defines "r1 \<equiv> device w s1"
  defines "s2 \<equiv> s1 @ [infoRequest h key]"
  defines "r2 \<equiv> device w s2"
  defines "s3 \<equiv> s2 @ [statusRequest h key]"
  defines "r3 \<equiv> device w s3"
  assumes ok1: "Error r1 = None" "Body r1 = Doc key" "statusOf key = ''success''"
    and ok2: "Error r2 = None" "Body r2 = Doc info" "statusOf info = ''success''"
  shows "Error r3 = Some e \<Longrightarrow> NewSession h u pw w = (Inl (TransportError e), w\<lparr>sent := s3\<rparr>)"
    and "Error r3 = None \<Longrightarrow> Body r3 = Malformed m \<Longrightarrow>
           NewSession h u pw w = (Inl (ParseError m), w\<lparr>sent := s3\<rparr>)"
    and "Error r3 = None \<Longrightarrow> Body r3 = Doc pan \<Longrightarrow>
           NewSession h u pw w = (Inr (session h key info pan), w\<lparr>sent := s3\<rparr>)"
  using ok1 ok2 unfolding s1_def r1_def s2_def r2_def s3_def r3_def
  by (simp_all add: NewSession_def Send_def Let_def Unmarshal_def keygenRequest_def infoRequest_def
      statusRequest_def session_def)


lemma NewSession_success:
  assumes run: "NewSession h u pw w = (Inr p, w')"
  shows "\<exists>key info pan.
           Body (device w (sent w @ [keygenRequest h u pw])) = Doc key \<and>
           Body (device w (sent w @ [keygenRequest h u pw, infoRequest h key])) = Doc info \<and>
           Body (device w (sent w @ [keygenRequest h u pw, infoRequest h key, statusRequest h key]))
             = Doc pan \<and>
           p = session h key info pan"
proof -
  let ?s1 = "sent w @ [keygenRequest h u pw]"
  let ?r1 = "device w ?s1"
  show ?thesis
  proof (cases "Error ?r1")
    case (Some e)
    from NewSession_keygen(1) [OF this] run show ?thesis by simp
  next
    case e1: None
    show ?thesis
    proof (cases "Body ?r1")
      case (Malformed m)
      from NewSession_keygen(2) [OF e1 this] run show ?thesis by simp
    next
      case b1: (Doc key)
      show ?thesis
      proof (cases "statusOf key = ''success''")
        case False
        from NewSession_keygen(3) [OF e1 b1 False] run show ?thesis by simp
      next
        case k1: True
        let ?s2 = "?s1 @ [infoRequest h key]"
        let ?r2 = "device w ?s2"
        show ?thesis
        proof (cases "Error ?r2")
          case (Some e)
          from NewSession_info(1) [OF e1 b1 k1 this] run show ?thesis by simp
        next
          case e2: None
          show ?thesis
          proof (cases "Body ?r2")
            case (Malformed m)
            from NewSession_info(2) [OF e1 b1 k1 e2 this] run show ?thesis by simp
          next
            case b2: (Doc info)
            show ?thesis
            proof (cases "statusOf info = ''success''")
              case False
              from NewSession_info(3) [OF e1 b1 k1 e2 b2 False] run show ?thesis by simp
            next
              case k2: True
              let ?s3 = "?s2 @ [statusRequest h key]"
              let ?r3 = "device w ?s3"
              show ?thesis
              proof (cases "Error ?r3")
                case (Some e)
                from NewSession_status(1) [OF e1 b1 k1 e2 b2 k2 this] run show ?thesis by simp
              next
                case e3: None
                show ?thesis
                proof (cases "Body ?r3")
                  case (Malformed m)
                  from NewSession_status(2) [OF e1 b1 k1 e2 b2 k2 e3 this] run
                  show ?thesis by simp
                next
                  case (Doc pan)
                  from NewSession_status(3) [OF e1 b1 k1 e2 b2 k2 e3 this] run
                  have "p = session h key info pan" by simp
                  with b1 b2 Doc show ?thesis by simp
                qed
              qed
            qed
          qed
        qed
      qed
    qed
  qed
qed

lemma login_answers:
  "login family pan [a] = answer keyReply"
  "login family pan [a, b] = answer (infoReply family)"
  "login family pan [a, b, c] = answer pan"
  by (simp_all add: login_def scripted_def)

section \<open>Creating an address object\<close>

text \<open>
  Claim C3. On a session whose device type is Panorama, \<^verbatim>\<open>CreateAddress\<close> without a
  device-group argument returns the precondition error, and the world it returns is the
  world it was given: no request has been sent.
\<close>

theorem CreateAddress_needs_device_group:
  assumes "DeviceType p = ''panorama''"
  shows "CreateAddress p name addrtype address description [] w =
           (Some (ConfigError ''you must specify a device-group when connected to a Panorama device''), w)"
  using assms by (simp add: CreateAddress_def needDeviceGroup_def Let_def)

text \<open>Claim C3, witness: the Panorama example session.\<close>

theorem CreateAddress_needs_device_group_witness:
  "DeviceType panorama = ''panorama'' \<and>
   fst (CreateAddress panorama ''srv1'' ''ip'' ''10.0.0.5/32'' [] [] (fresh (always (answer (reply ''success'' ''19'')))))
     = Some (ConfigError ''you must specify a device-group when connected to a Panorama device'') \<and>
   sent (snd (CreateAddress panorama ''srv1'' ''ip'' ''10.0.0.5/32'' [] []
     (fresh (always (answer (reply ''success'' ''19'')))))) = []"
proof -
  have h: "DeviceType panorama = ''panorama''"
    by (simp add: panorama_def)
  from CreateAddress_needs_device_group [OF h] h show ?thesis
    by (simp add: fresh_def)
qed

text \<open>
  Claim C5. On a standalone session, \<^verbatim>\<open>CreateAddress("srv1", "ip", "10.0.0.5/32", "")\<close> sends
  one request whose element is \<^verbatim>\<open><ip-netmask>10.0.0.5/32</ip-netmask>\<close> and whose locator ends
  in \<^verbatim>\<open>/address/entry[@name='srv1']\<close>.
\<close>

theorem CreateAddress_standalone_request:
  assumes "DeviceType p = ''panos''"
  shows "sent (snd (CreateAddress p ''srv1'' ''ip'' ''10.0.0.5/32'' [] [] w)) =
           sent w @
           [\<lparr>Method = ''post'', Url = URI p, Headers = [],
             Query = [(''type'', ''config''), (''action'', ''set''),
                      (''xpath'', ''/config/devices/entry[@name='localhost.localdomain']/vsys/entry[@name='vsys1']/address/entry[@name='srv1']''),
                      (''element'', ''<ip-netmask>10.0.0.5/32</ip-netmask>''),
                      (''key'', Key p)]\<rparr>] \<and>
         suffix ''/address/entry[@name='srv1']''
           ''/config/devices/entry[@name='localhost.localdomain']/vsys/entry[@name='vsys1']/address/entry[@name='srv1']''"
  using assms
  by (simp add: CreateAddress_def sendAndCheck_eq objectXpath_def addressBody_def vsys1_def
      localhost_def entry_def Let_def suffix_def)

text \<open>Claim C5, witness: the standalone example session.\<close>

theorem CreateAddress_standalone_request_witness:
  "DeviceType firewall = ''panos'' \<and>
   map (\<lambda>rq. map_of (Query rq) ''element'')
     (sent (snd (CreateAddress firewall ''srv1'' ''ip'' ''10.0.0.5/32'' [] []
        (fresh (always (answer (reply ''success'' ''19'')))))))
     = [Some ''<ip-netmask>10.0.0.5/32</ip-netmask>'']"
proof -
  have h: "DeviceType firewall = ''panos''"
    by (simp add: firewall_def)
  from CreateAddress_standalone_request [OF h] h show ?thesis
    by (simp add: fresh_def)
qed

section \<open>Device type\<close>

text \<open>
  Claim C4. When \<^verbatim>\<open>NewSession\<close> returns a session, its device type is \<^verbatim>\<open>panorama\<close> exactly
  when the platform family in the answer to the system-info request is \<^verbatim>\<open>m\<close>, and it is
  \<^verbatim>\<open>panos\<close> for every other platform family.
\<close>

theorem device_type_from_platform_family:
  assumes "NewSession h u pw w = (Inr p, w')"
  shows "\<exists>key info.
           Body (device w (sent w @ [keygenRequest h u pw])) = Doc key \<and>
           Body (device w (sent w @ [keygenRequest h u pw, infoRequest h key])) = Doc info \<and>
           (DeviceType p = ''panorama'' \<longleftrightarrow> xml_platform_family info = ''m'') \<and>
           (xml_platform_family info \<noteq> ''m'' \<longrightarrow> DeviceType p = ''panos'')"
proof -
  from NewSession_success [OF assms] obtain key info pan where
    "Body (device w (sent w @ [keygenRequest h u pw])) = Doc key"
    "Body (device w (sent w @ [keygenRequest h u pw, infoRequest h key])) = Doc info"
    "p = session h key info pan"
    by blast
  then show ?thesis
    by (intro exI [of _ key] exI [of _ info]) (simp add: session_def)
qed

text \<open>Claim C4, witness: a login at a device that reports the platform family \<^verbatim>\<open>m\<close>.\<close>

theorem device_type_from_platform_family_witness:
  "fst (NewSession ''pano1'' ''admin'' ''secret'' (fresh (login ''m'' (reply ''success'' ''19''))))
     = Inr (panorama\<lparr>Key := ''k1'', Model := ''PA-VM'', Serial := ''007''\<rparr>) \<and>
   DeviceType (panorama\<lparr>Key := ''k1'', Model := ''PA-VM'', Serial := ''007''\<rparr>) = ''panorama''"
proof -
  let ?w = "fresh (login ''m'' (reply ''success'' ''19''))"
  let ?p = "panorama\<lparr>Key := ''k1'', Model := ''PA-VM'', Serial := ''007''\<rparr>"
  have "NewSession ''pano1'' ''admin'' ''secret'' ?w =
      (Inr (session ''pano1'' keyReply (infoReply ''m'') (reply ''success'' ''19'')),
       ?w\<lparr>sent := ((sent ?w @ [keygenRequest ''pano1'' ''admin'' ''secret''])
                      @ [infoRequest ''pano1'' keyReply]) @ [statusRequest ''pano1'' keyReply]\<rparr>)"
    by (rule NewSession_status(3))
       (simp_all add: fresh_def login_answers answer_def keyReply_def infoReply_def reply_def statusOf_def codeOf_def attr_def)
  moreover have "session ''pano1'' keyReply (infoReply ''m'') (reply ''success'' ''19'') = ?p"
    by (simp add: session_def panorama_def keyReply_def infoReply_def reply_def statusOf_def codeOf_def attr_def Contains_def)
  ultimately have h: "NewSession ''pano1'' ''admin'' ''secret'' ?w =
      (Inr ?p, ?w\<lparr>sent := ((sent ?w @ [keygenRequest ''pano1'' ''admin'' ''secret''])
                      @ [infoRequest ''pano1'' keyReply]) @ [statusRequest ''pano1'' keyReply]\<rparr>)"
    by simp
  from device_type_from_platform_family [OF h] h show ?thesis
    by (auto simp: fresh_def login_answers answer_def infoReply_def reply_def statusOf_def codeOf_def attr_def)
qed

section \<open>The search loops\<close>

lemma searchLoop_absent:
  "object \<notin> set names \<Longrightarrow> searchLoop p q cat leaf object dg names w = (None, w)"
  by (induction names) simp_all

lemma searchLoop_other_type:
  "DeviceType p \<noteq> ''panos'' \<Longrightarrow> DeviceType p \<noteq> ''panorama'' \<Longrightarrow>
     searchLoop p q cat leaf object dg names w = (None, w)"
  by (induction names) auto

lemma searchLoop_sends:
  assumes "object \<in> set names"
    and "DeviceType p = ''panos'' \<or> (DeviceType p = ''panorama'' \<and> dg \<noteq> [])"
  shows "searchLoop p q cat leaf object dg names w =
           (Some (checkResponse (device w
                    (sent w @ [mutation p q (scopePath p dg @ cat @ entry object @ leaf)]))),
            w\<lparr>sent := sent w @ [mutation p q (scopePath p dg @ cat @ entry object @ leaf)]\<rparr>)"
  using assms
  by (induction names) (auto simp: sendAndCheck_eq mutation_def scopePath_def Let_def)

lemma searchLoop_refuses:
  assumes "object \<in> set names" and "DeviceType p = ''panorama''" and "dg = []"
  shows "searchLoop p q cat leaf object dg names w = (Some (Some needDeviceGroup), w)"
  using assms by (induction names) auto

lemma searchLoop_returns:
  "fst (searchLoop p q cat leaf object dg names w) \<noteq> None \<longleftrightarrow> loopReturns p object names"
proof (cases "object \<in> set names")
  case False
  then show ?thesis by (simp add: searchLoop_absent loopReturns_def)
next
  case True
  consider (a) "DeviceType p = ''panos'' \<or> (DeviceType p = ''panorama'' \<and> dg \<noteq> [])"
    | (b) "DeviceType p = ''panorama''" "dg = []"
    | (c) "DeviceType p \<noteq> ''panos''" "DeviceType p \<noteq> ''panorama''"
    by blast
  then show ?thesis
  proof cases
    case a
    from searchLoop_sends [OF True a] a True show ?thesis by (auto simp: loopReturns_def)
  next
    case b
    from searchLoop_refuses [OF True b] b True show ?thesis by (simp add: loopReturns_def)
  next
    case c
    from searchLoop_other_type [OF c] c show ?thesis by (simp add: loopReturns_def)
  qed
qed

lemma searchLoop_None:
  "searchLoop p q cat leaf object dg names w = (None, w') \<Longrightarrow> \<not> loopReturns p object names"
  using searchLoop_returns [of p q cat leaf object dg names w] by simp

lemma searchLoop_Some:
  "searchLoop p q cat leaf object dg names w = (Some r, w') \<Longrightarrow> loopReturns p object names"
  using searchLoop_returns [of p q cat leaf object dg names w] by simp

lemma searchAll_panics:
  "fst (searchAll p q leaf object dg adObj agObj sObj sgObj w) = Panic
     \<longleftrightarrow> panics p object adObj agObj sObj sgObj"
  unfolding searchAll_def panics_def
  by (auto split: option.splits prod.splits dest: searchLoop_None searchLoop_Some)

lemma sendAndParse_listing:
  "dropError (fst (sendAndParse u q proj w)) =
     listing proj (device w (sent w @ [\<lparr>Method = ''get'', Url = u, Headers = headers, Query = q\<rparr>]))"
  by (simp add: sendAndParse_eq Let_def Unmarshal_def dropError_def listing_def split: body.splits)

lemma listings_eq:
  "dropError (fst (Addresses p [] w)) = listing xml_address (device w (sent w @ [listRequest p ''address'']))"
  "snd (Addresses p [] w) = w\<lparr>sent := sent w @ [listRequest p ''address'']\<rparr>"
  "dropError (fst (AddressGroups p [] w)) =
     listing (\<lambda>d. map convertGroup (xml_address_group d)) (device w (sent w @ [listRequest p ''address-group'']))"
  "snd (AddressGroups p [] w) = w\<lparr>sent := sent w @ [listRequest p ''address-group'']\<rparr>"
  "dropError (fst (Services p [] w)) = listing xml_service (device w (sent w @ [listRequest p ''service'']))"
  "snd (Services p [] w) = w\<lparr>sent := sent w @ [listRequest p ''service'']\<rparr>"
  "dropError (fst (ServiceGroups p [] w)) =
     listing xml_service_group (device w (sent w @ [listRequest p ''service-group'']))"
  "snd (ServiceGroups p [] w) = w\<lparr>sent := sent w @ [listRequest p ''service-group'']\<rparr>"
  by (simp_all add: Addresses_def AddressGroups_def Services_def ServiceGroups_def Let_def
      sendAndParse_listing sendAndParse_snd listRequest_def)

lemma listAll_eq:
  "listAll p w =
     ((listing xml_address (device w (sent w @ take 1 (listRequests p))),
       listing (\<lambda>d. map convertGroup (xml_address_group d)) (device w (sent w @ take 2 (listRequests p))),
       listing xml_service (device w (sent w @ take 3 (listRequests p))),
       listing xml_service_group (device w (sent w @ listRequests p))),
      w\<lparr>sent := sent w @ listRequests p\<rparr>)"
  by (simp add: listAll_def split_beta Let_def listings_eq listRequests_def)

lemma listAll_world:
  assumes "listAll p w = (r, w4)"
  shows "sent w4 = sent w @ listRequests p" and "device w4 = device w"
  using assms by (auto simp: listAll_eq)

lemma listRequests_get:
  "\<forall>rq \<in> set (listRequests p). Method rq = ''get'' \<and> map_of (Query rq) ''action'' = Some ''get''"
  by (simp add: listRequests_def listRequest_def)

lemma searchAll_absent:
  assumes "firstCategory object ads ags ss sgs = None"
  shows "searchAll p q leaf object dg (Some ads) (Some ags) (Some ss) (Some sgs) w = (Return None, w)"
proof -
  from assms have "object \<notin> set (map addr_Name ads)" "object \<notin> set (map ag_Name ags)"
    "object \<notin> set (map svc_Name ss)" "object \<notin> set (map sg_Name sgs)"
    by (simp_all add: firstCategory_def split: if_splits)
  then show ?thesis
    by (simp add: searchAll_def searchLoop_absent)
qed

lemma searchAll_first:
  assumes "firstCategory object ads ags ss sgs = Some cat"
    and "DeviceType p = ''panos'' \<or> (DeviceType p = ''panorama'' \<and> dg \<noteq> [])"
  shows "searchAll p q leaf object dg (Some ads) (Some ags) (Some ss) (Some sgs) w =
           (Return (checkResponse (device w
                      (sent w @ [mutation p q (scopePath p dg @ cat @ entry object @ leaf)]))),
            w\<lparr>sent := sent w @ [mutation p q (scopePath p dg @ cat @ entry object @ leaf)]\<rparr>)"
proof -
  consider (ad) "object \<in> set (map addr_Name ads)" "cat = ''/address''"
    | (ag) "object \<notin> set (map addr_Name ads)" "object \<in> set (map ag_Name ags)"
           "cat = ''/address-group''"
    | (s) "object \<notin> set (map addr_Name ads)" "object \<notin> set (map ag_Name ags)"
          "object \<in> set (map svc_Name ss)" "cat = ''/service''"
    | (sg) "object \<notin> set (map addr_Name ads)" "object \<notin> set (map ag_Name ags)"
           "object \<notin> set (map svc_Name ss)" "object \<in> set (map sg_Name sgs)"
           "cat = ''/service-group''"
    using assms(1) unfolding firstCategory_def by (auto split: if_splits)
  then show ?thesis
  proof cases
    case ad
    then show ?thesis
      by (simp add: searchAll_def searchLoop_sends [OF ad(1) assms(2)])
  next
    case ag
    then show ?thesis
      by (simp add: searchAll_def searchLoop_absent searchLoop_sends [OF ag(2) assms(2)])
  next
    case s
    then show ?thesis
      by (simp add: searchAll_def searchLoop_absent searchLoop_sends [OF s(3) assms(2)])
  next
    case sg
    then show ?thesis
      by (simp add: searchAll_def searchLoop_absent searchLoop_sends [OF sg(4) assms(2)])
  qed
qed

text \<open>
  Claim C6, as amended. \<^verbatim>\<open>ApplyTag\<close> searches the listings in the order addresses,
  address-groups, services, service-groups. When the four listing calls succeed, the name is
  in some listing and the call can apply a tag (a standalone session, or a Panorama session
  called with a device-group), \<^verbatim>\<open>ApplyTag\<close> sends exactly one request after the four listing
  requests, an edit of the tag of the object in the first category that has the name, and
  returns what the answer to this request gives; a name in several categories goes to the
  earliest.
\<close>

theorem ApplyTag_first_category:
  assumes "listAll p w = ((Some ads, Some ags, Some ss, Some sgs), w4)"
    and "firstCategory object ads ags ss sgs = Some cat"
    and "DeviceType p = ''panos'' \<or> (DeviceType p = ''panorama'' \<and> devicegroup \<noteq> [])"
  shows "ApplyTag p tag object devicegroup w =
           (Return (checkResponse (device w4 (sent w4 @
              [mutation p (applyQuery p tag) (scopePath p devicegroup @ cat @ entry object @ ''/tag'')]))),
            w4\<lparr>sent := sent w4 @
              [mutation p (applyQuery p tag) (scopePath p devicegroup @ cat @ entry object @ ''/tag'')]\<rparr>)
         \<and> sent w4 = sent w @ listRequests p"
  using assms(1) listAll_world(1) [OF assms(1)]
  by (simp add: ApplyTag_def Let_def applyQuery_def searchAll_first [OF assms(2,3)])

text \<open>
  Claim C8. When the object's name is in none of the four listings, \<^verbatim>\<open>ApplyTag\<close> and
  \<^verbatim>\<open>RemoveTag\<close> return \<^verbatim>\<open>nil\<close> and the only requests sent are the four listing requests
  (\<^verbatim>\<open>get\<close>), whatever the device type and the device-group argument are.
\<close>

theorem tag_of_unlisted_object:
  assumes "listAll p w = ((Some ads, Some ags, Some ss, Some sgs), w4)"
    and "firstCategory object ads ags ss sgs = None"
  shows "ApplyTag p tag object devicegroup w = (Return None, w4) \<and>
         RemoveTag p tag object devicegroup w = (Return None, w4) \<and>
         sent w4 = sent w @ listRequests p \<and>
         (\<forall>rq \<in> set (listRequests p). Method rq = ''get'' \<and> map_of (Query rq) ''action'' = Some ''get'')"
  using assms(1) listAll_world(1) [OF assms(1)] listRequests_get [of p]
  by (simp add: ApplyTag_def RemoveTag_def Let_def searchAll_absent [OF assms(2)])

text \<open>
  Claim C10, as amended. \<^verbatim>\<open>ApplyTag\<close> and \<^verbatim>\<open>RemoveTag\<close> panic exactly when a listing call has
  failed and no search loop over an earlier category has returned first; a loop returns
  when the name is in its listing and the device type is \<^verbatim>\<open>panos\<close> or \<^verbatim>\<open>panorama\<close>. So a failed
  address listing always panics, and when all four listing calls succeed there is no
  panic.
\<close>

theorem nil_listing_panics:
  assumes "listAll p w = ((adObj, agObj, sObj, sgObj), w4)"
  shows "(fst (ApplyTag p tag object devicegroup w) = Panic \<longleftrightarrow> panics p object adObj agObj sObj sgObj) \<and>
         (fst (RemoveTag p tag object devicegroup w) = Panic \<longleftrightarrow> panics p object adObj agObj sObj sgObj) \<and>
         (adObj = None \<longrightarrow> panics p object adObj agObj sObj sgObj) \<and>
         (adObj \<noteq> None \<and> agObj \<noteq> None \<and> sObj \<noteq> None \<and> sgObj \<noteq> None
            \<longrightarrow> \<not> panics p object adObj agObj sObj sgObj)"
  using assms
  by (auto simp: ApplyTag_def RemoveTag_def Let_def searchAll_panics panics_def)

lemma catalog_answers:
  "catalog d1 d2 d3 d4 [a] = answer d1"
  "catalog d1 d2 d3 d4 [a, b] = answer d2"
  "catalog d1 d2 d3 d4 [a, b, c] = answer d3"
  "catalog d1 d2 d3 d4 [a, b, c, d] = answer d4"
  "catalog d1 d2 d3 d4 [a, b, c, d, e] = answer (reply ''success'' ''19'')"
  by (simp_all add: catalog_def scripted_def)

lemma listing_answer:
  "listing proj (answer d) = (if statusOf d \<noteq> ''success'' then None else Some (proj d))"
  by (simp add: listing_def answer_def)

lemma listAll_catalog:
  "listAll p (fresh (catalog d1 d2 d3 d4)) =
     ((listing xml_address (answer d1),
       listing (\<lambda>d. map convertGroup (xml_address_group d)) (answer d2),
       listing xml_service (answer d3),
       listing xml_service_group (answer d4)),
      (fresh (catalog d1 d2 d3 d4))\<lparr>sent := listRequests p\<rparr>)"
  by (simp add: listAll_eq fresh_def listRequests_def catalog_answers)

lemma status_of_reply:
  "statusOf (reply s c) = s"
  "statusOf addressList = ''success''" "xml_address addressList = [srv1]"
  "xml_address_group addressList = []" "xml_service addressList = []"
  "xml_service_group addressList = []"
  "statusOf serviceList = ''success''" "xml_service serviceList = [\<lparr>svc_Name = ''srv1''\<rparr>]"
  "xml_address (reply s c) = []" "xml_address_group (reply s c) = []"
  "xml_service (reply s c) = []" "xml_service_group (reply s c) = []"
  by (simp_all add: reply_def statusOf_def codeOf_def attr_def addressList_def serviceList_def statusOf_def attr_def)

text \<open>
  Claim C6, witness: the name \<^verbatim>\<open>srv1\<close> is an address and a service; the tag goes to the
  address.
\<close>

theorem ApplyTag_first_category_witness:
  "firstCategory ''srv1'' [srv1] [] [\<lparr>svc_Name = ''srv1''\<rparr>] [] = Some ''/address'' \<and>
   fst (ApplyTag firewall ''web'' ''srv1'' []
          (fresh (catalog addressList (reply ''success'' ''19'') serviceList (reply ''success'' ''19''))))
     = Return None \<and>
   map (\<lambda>rq. map_of (Query rq) ''xpath'')
     (drop 4 (sent (snd (ApplyTag firewall ''web'' ''srv1'' []
          (fresh (catalog addressList (reply ''success'' ''19'') serviceList (reply ''success'' ''19'')))))))
     = [Some (vsys1 @ ''/address'' @ entry ''srv1'' @ ''/tag'')]"
proof -
  let ?w = "fresh (catalog addressList (reply ''success'' ''19'') serviceList (reply ''success'' ''19''))"
  have h1: "listAll firewall ?w =
      ((Some [srv1], Some [], Some [\<lparr>svc_Name = ''srv1''\<rparr>], Some []),
       ?w\<lparr>sent := listRequests firewall\<rparr>)"
    by (simp add: listAll_catalog listing_answer status_of_reply)
  have h2: "firstCategory ''srv1'' [srv1] [] [\<lparr>svc_Name = ''srv1''\<rparr>] [] = Some ''/address''"
    by (simp add: firstCategory_def srv1_def)
  have h3: "DeviceType firewall = ''panos'' \<or> (DeviceType firewall = ''panorama'' \<and> [] \<noteq> ([]::string list))"
    by (simp add: firewall_def)
  from ApplyTag_first_category [OF h1 h2 h3, of "''web''"] h2 show ?thesis
    by (simp add: fresh_def listRequests_def catalog_answers checkResponse_Doc classify_eq answer_def
        status_of_reply mutation_def scopePath_def firewall_def applyQuery_def)
qed

text \<open>
  Claim C6 as stated, for every session, fails on a Panorama session called without a
  device-group: the name is in the address listing, and \<^verbatim>\<open>ApplyTag\<close> returns the precondition
  error after the four listing requests without applying the tag.
\<close>

theorem ApplyTag_refused_without_device_group:
  "firstCategory ''srv1'' [srv1] [] [\<lparr>svc_Name = ''srv1''\<rparr>] [] = Some ''/address'' \<and>
   fst (ApplyTag panorama ''web'' ''srv1'' []
          (fresh (catalog addressList (reply ''success'' ''19'') serviceList (reply ''success'' ''19''))))
     = Return (Some needDeviceGroup) \<and>
   sent (snd (ApplyTag panorama ''web'' ''srv1'' []
          (fresh (catalog addressList (reply ''success'' ''19'') serviceList (reply ''success'' ''19'')))))
     = listRequests panorama"
proof -
  let ?w = "fresh (catalog addressList (reply ''success'' ''19'') serviceList (reply ''success'' ''19''))"
  have h1: "listAll panorama ?w =
      ((Some [srv1], Some [], Some [\<lparr>svc_Name = ''srv1''\<rparr>], Some []),
       ?w\<lparr>sent := listRequests panorama\<rparr>)"
    by (simp add: listAll_catalog listing_answer status_of_reply)
  have h2: "''srv1'' \<in> set [addr_Name srv1]"
    by (simp add: srv1_def)
  have h3: "DeviceType panorama = ''panorama''"
    by (simp add: panorama_def)
  have "ApplyTag panorama ''web'' ''srv1'' [] ?w =
      searchAll panorama (applyQuery panorama ''web'') ''/tag'' ''srv1'' []
        (Some [srv1]) (Some []) (Some [\<lparr>svc_Name = ''srv1''\<rparr>]) (Some [])
        (?w\<lparr>sent := listRequests panorama\<rparr>)"
    by (simp add: ApplyTag_def Let_def h1 applyQuery_def)
  also have "\<dots> = (Return (Some needDeviceGroup), ?w\<lparr>sent := listRequests panorama\<rparr>)"
    by (simp add: searchAll_def searchLoop_refuses [OF h2 h3] del: searchLoop.simps)
  finally show ?thesis
    by (simp add: firstCategory_def srv1_def)
qed

text \<open>Claim C8, witness: a Panorama session, no device-group, a name that is not listed.\<close>

theorem tag_of_unlisted_object_witness:
  "firstCategory ''nosuch'' [srv1] [] [\<lparr>svc_Name = ''srv1''\<rparr>] [] = None \<and>
   fst (ApplyTag panorama ''web'' ''nosuch'' []
          (fresh (catalog addressList (reply ''success'' ''19'') serviceList (reply ''success'' ''19''))))
     = Return None \<and>
   fst (RemoveTag panorama ''web'' ''nosuch'' []
          (fresh (catalog addressList (reply ''success'' ''19'') serviceList (reply ''success'' ''19''))))
     = Return None \<and>
   sent (snd (ApplyTag panorama ''web'' ''nosuch'' []
          (fresh (catalog addressList (reply ''success'' ''19'') serviceList (reply ''success'' ''19'')))))
     = listRequests panorama"
proof -
  let ?w = "fresh (catalog addressList (reply ''success'' ''19'') serviceList (reply ''success'' ''19''))"
  have h1: "listAll panorama ?w =
      ((Some [srv1], Some [], Some [\<lparr>svc_Name = ''srv1''\<rparr>], Some []),
       ?w\<lparr>sent := listRequests panorama\<rparr>)"
    by (simp add: listAll_catalog listing_answer status_of_reply)
  have h2: "firstCategory ''nosuch'' [srv1] [] [\<lparr>svc_Name = ''srv1''\<rparr>] [] = None"
    by (simp add: firstCategory_def srv1_def)
  from tag_of_unlisted_object [OF h1 h2, of "''web''" "[]"] h2 show ?thesis
    by (simp add: fresh_def)
qed

text \<open>
  Claim C10, witness: the service listing fails and the name is in no earlier listing.
\<close>

theorem nil_listing_panics_witness:
  "fst (listAll panorama
          (fresh (catalog addressList (reply ''success'' ''19'') (reply ''error'' ''16'') (reply ''success'' ''19''))))
     = (Some [srv1], Some [], None, Some []) \<and>
   fst (ApplyTag panorama ''web'' ''web1'' [''dg1'']
          (fresh (catalog addressList (reply ''success'' ''19'') (reply ''error'' ''16'') (reply ''success'' ''19''))))
     = Panic"
proof -
  let ?w = "fresh (catalog addressList (reply ''success'' ''19'') (reply ''error'' ''16'') (reply ''success'' ''19''))"
  have h1: "listAll panorama ?w =
      ((Some [srv1], Some [], None, Some []), ?w\<lparr>sent := listRequests panorama\<rparr>)"
    by (simp add: listAll_catalog listing_answer status_of_reply)
  from nil_listing_panics [OF h1, of "''web''" "''web1''" "[''dg1'']"] h1 show ?thesis
    by (simp add: panics_def loopReturns_def srv1_def)
qed

text \<open>
  Claim C10 as stated fails: three of the four listing calls fail, the name is in the
  address listing, and \<^verbatim>\<open>ApplyTag\<close> returns \<^verbatim>\<open>nil\<close> after its request without a panic.
\<close>

theorem earlier_match_avoids_panic:
  "fst (listAll firewall
          (fresh (catalog addressList (reply ''error'' ''403'') (reply ''error'' ''403'') (reply ''error'' ''403''))))
     = (Some [srv1], None, None, None) \<and>
   fst (ApplyTag firewall ''web'' ''srv1'' []
          (fresh (catalog addressList (reply ''error'' ''403'') (reply ''error'' ''403'') (reply ''error'' ''403''))))
     = Return None"
proof -
  let ?w = "fresh (catalog addressList (reply ''error'' ''403'') (reply ''error'' ''403'') (reply ''error'' ''403''))"
  have h1: "listAll firewall ?w =
      ((Some [srv1], None, None, None), ?w\<lparr>sent := listRequests firewall\<rparr>)"
    by (simp add: listAll_catalog listing_answer status_of_reply)
  have h2: "''srv1'' \<in> set [addr_Name srv1]"
    by (simp add: srv1_def)
  have h3: "DeviceType firewall = ''panos'' \<or> (DeviceType firewall = ''panorama'' \<and> [] \<noteq> ([]::string list))"
    by (simp add: firewall_def)
  have "ApplyTag firewall ''web'' ''srv1'' [] ?w =
      searchAll firewall (applyQuery firewall ''web'') ''/tag'' ''srv1'' []
        (Some [srv1]) None None None (?w\<lparr>sent := listRequests firewall\<rparr>)"
    by (simp add: ApplyTag_def Let_def h1 applyQuery_def)
  also have "fst \<dots> = Return None"
    by (simp add: searchAll_def searchLoop_sends [OF h2 h3]
        fresh_def listRequests_def catalog_answers checkResponse_Doc classify_eq answer_def status_of_reply
        del: searchLoop.simps)
  finally show ?thesis
    by (simp add: h1)
qed

text \<open>
  Claim C7 at a failing input: the device answers every request with
  \<^verbatim>\<open>status="error" code="403"\<close>. \<^verbatim>\<open>Addresses\<close> returns the error, \<^verbatim>\<open>ApplyTag\<close> and \<^verbatim>\<open>RemoveTag\<close> drop
  it and panic on the nil result instead of returning it.
\<close>

theorem listing_error_is_dropped:
  "fst (Addresses firewall [] (fresh (always (answer (reply ''error'' ''403'')))))
     = Inl (codeError ''403'') \<and>
   fst (ApplyTag firewall ''web'' ''srv1'' [] (fresh (always (answer (reply ''error'' ''403'')))))
     = Panic \<and>
   fst (RemoveTag firewall ''web'' ''srv1'' [] (fresh (always (answer (reply ''error'' ''403'')))))
     = Panic"
proof -
  let ?w = "fresh (always (answer (reply ''error'' ''403'')))"
  have "fst (listAll firewall ?w) = (None, None, None, None)"
    by (simp add: listAll_eq fresh_def always_def listing_answer status_of_reply)
  then have "\<exists>w4. listAll firewall ?w = ((None, None, None, None), w4)"
    by (metis prod.collapse)
  moreover have "fst (Addresses firewall [] ?w) = Inl (codeError ''403'')"
    by (simp add: Addresses_def sendAndParse_eq Let_def fresh_def always_def answer_def
        Unmarshal_def reply_def statusOf_def codeOf_def attr_def firewall_def)
  ultimately show ?thesis
    by (auto simp: ApplyTag_def RemoveTag_def Let_def searchAll_def)
qed

section \<open>Tag colors\<close>

lemma colorName_unknown:
  "color \<notin> set (map snd kvs) \<Longrightarrow> colorName kvs color tcolor = tcolor"
  by (induction kvs arbitrary: tcolor) auto

lemma colorName_known:
  "distinct (map snd kvs) \<Longrightarrow> (k, color) \<in> set kvs \<Longrightarrow> colorName kvs color tcolor = k"
proof (induction kvs arbitrary: tcolor)
  case Nil
  then show ?case by simp
next
  case (Cons kv kvs)
  obtain k' v' where kv: "kv = (k', v')" by (cases kv)
  show ?case
  proof (cases "(k, color) = kv")
    case True
    with Cons.prems(1) kv have "color \<notin> set (map snd kvs)" by auto
    with True kv show ?thesis by (simp add: colorName_unknown)
  next
    case False
    with Cons.prems have "(k, color) \<in> set kvs" "distinct (map snd kvs)" by auto
    with Cons.IH show ?thesis by (simp add: kv)
  qed
qed

lemma find_known:
  "distinct (map snd kvs) \<Longrightarrow> (k, color) \<in> set kvs \<Longrightarrow>
     find (\<lambda>kv. snd kv = color) kvs = Some (k, color)"
  by (induction kvs) (auto simp: rev_image_eqI)

lemma tagColors_distinct: "distinct (map snd tagColors)"
  by (simp add: tagColors_def)

lemma colorName_tagColors:
  "colorName tagColors (xtag_Color t) tcolor =
     (if knownColor t then nameOfCode (xtag_Color t) else tcolor)"
proof (cases "knownColor t")
  case False
  then show ?thesis by (simp add: knownColor_def colorName_unknown)
next
  case True
  then obtain k where k: "(k, xtag_Color t) \<in> set tagColors"
    by (auto simp: knownColor_def)
  from colorName_known [OF tagColors_distinct k] find_known [OF tagColors_distinct k] True
  show ?thesis by (simp add: nameOfCode_def)
qed

lemma tagsLoop_append: "tagsLoop ts tcolor tags = tags @ tagsLoop ts tcolor []"
proof (induction ts arbitrary: tcolor tags)
  case Nil
  then show ?case by simp
next
  case (Cons t ts)
  show ?case
    by (simp add: Let_def Cons.IH [of _ "tags @ _"] Cons.IH [of _ "[_]"])
qed

lemma tagsLoop_Cons:
  "tagsLoop (t # ts) tcolor [] =
     \<lparr>tag_Name = xtag_Name t,
      tag_Color = (if knownColor t then nameOfCode (xtag_Color t) else tcolor),
      tag_Comments = xtag_Comments t\<rparr>
     # tagsLoop ts (if knownColor t then nameOfCode (xtag_Color t) else tcolor) []"
  using tagsLoop_append [of ts _ "[_]"] by (simp add: Let_def colorName_tagColors)

lemma tagsLoop_length: "length (tagsLoop ts tcolor []) = length ts"
  by (induction ts arbitrary: tcolor) (simp_all add: tagsLoop_Cons del: tagsLoop.simps(2))

lemma tagsLoop_color:
  "i < length ts \<Longrightarrow>
     tag_Color (tagsLoop ts tcolor [] ! i) =
       (if knownColor (ts ! i) then nameOfCode (xtag_Color (ts ! i))
        else case filter knownColor (rev (take i ts)) of
               [] \<Rightarrow> tcolor
             | t # _ \<Rightarrow> nameOfCode (xtag_Color t))"
proof (induction ts arbitrary: tcolor i)
  case Nil
  then show ?case by simp
next
  case (Cons t ts)
  show ?case
  proof (cases i)
    case 0
    then show ?thesis by (simp add: tagsLoop_Cons del: tagsLoop.simps(2))
  next
    case (Suc j)
    with Cons.prems have j: "j < length ts" by simp
    show ?thesis
      using Cons.IH [OF j] Suc
      by (simp add: tagsLoop_Cons del: tagsLoop.simps(2) split: list.splits)
  qed
qed

text \<open>
  Claim C9. In the result of \<^verbatim>\<open>Tags\<close>, a tag whose color code is in the color table has the
  table's name for it, and a tag whose code is not in the table has the color name resolved
  for the most recent preceding tag with a code of the table, or the empty string when
  there is none.
\<close>

theorem unknown_color_carries_over:
  assumes "Tags p w = (Inr tags, w')"
  shows "\<exists>parsed. Body (device w (sent w')) = Doc parsed \<and>
           length tags = length (xml_tag parsed) \<and>
           (\<forall>i < length tags.
              if knownColor (xml_tag parsed ! i)
              then tag_Color (tags ! i) = nameOfCode (xtag_Color (xml_tag parsed ! i))
              else tag_Color (tags ! i) = carriedColor (take i (xml_tag parsed)))"
proof -
  let ?q = "[(''type'', ''config''), (''action'', ''get''),
             (''xpath'', if DeviceType p = ''panorama'' then ''/config/devices/entry//tag''
                         else if DeviceType p = ''panos'' \<and> Panorama p = True then ''/config/panorama//tag''
                         else ''/config/devices/entry//tag''),
             (''key'', Key p)]"
  have T: "Tags p w = sendAndParse (URI p) ?q (\<lambda>parsedTags. tagsLoop (xml_tag parsedTags) [] []) w"
    by (simp add: Tags_def Let_def)
  from assms T have w': "w' = w\<lparr>sent := sent w @ [\<lparr>Method = ''get'', Url = URI p,
      Headers = headers, Query = ?q\<rparr>]\<rparr>"
    using sendAndParse_snd [of "URI p" ?q _ w] by (metis snd_conv)
  from assms T obtain parsed where
    b: "Body (device w (sent w')) = Doc parsed" and t: "tags = tagsLoop (xml_tag parsed) [] []"
    unfolding w'
    by (auto simp: sendAndParse_eq Let_def Unmarshal_def split: body.splits if_splits)
  show ?thesis
    using b t by (auto simp: tagsLoop_length tagsLoop_color carriedColor_def)
qed

text \<open>Claim C9, witness: a tag with the unknown code \<^verbatim>\<open>color99\<close> after a red tag.\<close>

theorem unknown_color_carries_over_witness:
  "\<not> knownColor \<lparr>xtag_Name = ''db'', xtag_Color = ''color99'', xtag_Comments = []\<rparr> \<and>
   fst (Tags firewall (fresh (always (answer tagList)))) =
     Inr [\<lparr>tag_Name = ''web'', tag_Color = ''Red'', tag_Comments = []\<rparr>,
          \<lparr>tag_Name = ''db'', tag_Color = ''Red'', tag_Comments = []\<rparr>] \<and>
   carriedColor [\<lparr>xtag_Name = ''web'', xtag_Color = ''color1'', xtag_Comments = []\<rparr>] = ''Red''"
proof -
  let ?w = "fresh (always (answer tagList))"
  let ?tags = "[\<lparr>tag_Name = ''web'', tag_Color = ''Red'', tag_Comments = []\<rparr>,
                \<lparr>tag_Name = ''db'', tag_Color = ''Red'', tag_Comments = []\<rparr>]"
  have c: "colorName tagColors ''color1'' [] = ''Red''" "colorName tagColors ''color99'' ''Red'' = ''Red''"
    by (simp_all add: tagColors_def)
  have f: "fst (Tags firewall ?w) = Inr ?tags"
    by (simp add: Tags_def sendAndParse_eq Let_def fresh_def always_def answer_def Unmarshal_def
        tagList_def reply_def statusOf_def codeOf_def attr_def c)
  then have h: "Tags firewall ?w = (Inr ?tags, snd (Tags firewall ?w))"
    by (metis prod.collapse)
  have k: "\<not> knownColor \<lparr>xtag_Name = ''db'', xtag_Color = ''color99'', xtag_Comments = []\<rparr>"
    by (simp add: knownColor_def tagColors_def)
  from unknown_color_carries_over [OF h] obtain parsed where
    p: "Body (device ?w (sent (snd (Tags firewall ?w)))) = Doc parsed"
    and q: "\<forall>i < length ?tags. if knownColor (xml_tag parsed ! i)
              then tag_Color (?tags ! i) = nameOfCode (xtag_Color (xml_tag parsed ! i))
              else tag_Color (?tags ! i) = carriedColor (take i (xml_tag parsed))"
    by blast
  from p have "parsed = tagList"
    by (simp add: fresh_def always_def answer_def)
  with q [rule_format, of 1] k have "carriedColor [\<lparr>xtag_Name = ''web'', xtag_Color = ''color1'', xtag_Comments = []\<rparr>] = ''Red''"
    by (simp add: tagList_def reply_def statusOf_def codeOf_def attr_def)
  with k f show ?thesis by simp
qed

section \<open>Tag calls end in the request tail\<close>






section \<open>Status classification\<close>

text \<open>
  The variable \<^verbatim>\<open>reqError\<close> of \<^verbatim>\<open>AddDevice\<close> is used twice. The first answer has the code
  \<^verbatim>\<open>20\<close>; a second answer \<^verbatim>\<open>status="error"\<close> without a code attribute gives the error with the
  first answer's code, and a second answer without a status attribute gives no error.
\<close>

lemma AddDevice_keeps_first_answer:
  "fst (AddDevice panorama ''007'' [''dg1'']
          (fresh (scripted [answer (reply ''success'' ''20''),
                            answer ((reply ''error'' ''7'')\<lparr>xml_code := None\<rparr>)]
                    (answer (reply ''success'' ''19''))))) = Some (codeError ''20'')"
  "fst (AddDevice panorama ''007'' [''dg1'']
          (fresh (scripted [answer (reply ''success'' ''20''),
                            answer ((reply ''error'' ''7'')\<lparr>xml_status := None\<rparr>)]
                    (answer (reply ''success'' ''19''))))) = None"
  by (simp_all add: AddDevice_def Let_def sendAndCheckInto_eq checkResponseInto_Doc panorama_def
      fresh_def scripted_def answer_def reply_def statusOf_def codeOf_def attr_def verdict_def unmarshalled_def attr_def zeroError_def)








section \<open>Error texts\<close>






end
